theory Spec2Isabelle
  imports Complex_Main "HOL-Library.Sublist" "HOL-Library.Word"
begin

section \<open>Values shared by the HTTP front door and the RPC layer\<close>

text \<open>
  The status codes of the RPC library (package \<open>codes\<close>), in their numeric order.
\<close>

datatype codes =
    OK | Canceled | Unknown | InvalidArgument | DeadlineExceeded | NotFound
  | AlreadyExists | PermissionDenied | ResourceExhausted | FailedPrecondition
  | Aborted | OutOfRange | Unimplemented | Internal | Unavailable | DataLoss
  | Unauthenticated

text \<open>
  A Go \<open>error\<close> value. \<open>GRPCStatus c m\<close> is what \<open>status.Errorf(c, m)\<close> builds;
  the two sentinels are the package-level errors of the tracing API that
  \<open>grpcHandlerFunc\<close> compares against; \<open>PlainError m\<close> is any other error value (it has
  a message and no status). A nil error is \<open>None\<close> of \<open>go_error option\<close>.
\<close>

datatype go_error =
    GRPCStatus codes string
  | ErrSpanContextNotFound
  | ErrSpanContextCorrupted
  | PlainError string

text \<open>
  \<open>status.Code(err)\<close>: the kind of an error as the RPC library reports it to the peer:
  \<open>OK\<close> for nil, the carried code for a status error, \<open>Unknown\<close> for every error that
  carries no status.
\<close>

fun status_Code :: "go_error option \<Rightarrow> codes" where
  "status_Code None = OK"
| "status_Code (Some (GRPCStatus c m)) = c"
| "status_Code (Some e) = Unknown"

section \<open>HTTP headers\<close>

text \<open>
  \<open>http.Header\<close> is \<open>map[string][]string\<close>. \<open>Get\<close> and \<open>Set\<close> canonicalise the key
  first (\<open>textproto.CanonicalMIMEHeaderKey\<close>): a key made of token bytes only gets an
  upper-case letter at its start and after every hyphen and lower-case letters elsewhere;
  any other key is left as it is.
\<close>

type_synonym Header = "string \<rightharpoonup> string list"

definition is_lower :: "char \<Rightarrow> bool" where
  "is_lower c = (97 \<le> (of_char c :: nat) \<and> (of_char c :: nat) \<le> 122)"

definition is_upper :: "char \<Rightarrow> bool" where
  "is_upper c = (65 \<le> (of_char c :: nat) \<and> (of_char c :: nat) \<le> 90)"

definition is_digit :: "char \<Rightarrow> bool" where
  "is_digit c = (48 \<le> (of_char c :: nat) \<and> (of_char c :: nat) \<le> 57)"

definition validHeaderFieldByte :: "char \<Rightarrow> bool" where
  "validHeaderFieldByte c =
     (is_lower c \<or> is_upper c \<or> is_digit c \<or> c \<in> set ''!#$%&*+-.^_`|~'' \<or> of_char c = (39 :: nat))"

fun canonical_bytes :: "bool \<Rightarrow> string \<Rightarrow> string" where
  "canonical_bytes up [] = []"
| "canonical_bytes up (c # cs) =
     (let c' = (if up \<and> is_lower c then char_of ((of_char c :: nat) - 32)
                else if \<not> up \<and> is_upper c then char_of ((of_char c :: nat) + 32)
                else c)
      in c' # canonical_bytes (c' = CHR ''-'') cs)"

definition CanonicalMIMEHeaderKey :: "string \<Rightarrow> string" where
  "CanonicalMIMEHeaderKey s =
     (if list_all validHeaderFieldByte s then canonical_bytes True s else s)"

definition Header_Get :: "Header \<Rightarrow> string \<Rightarrow> string" where
  "Header_Get h key =
     (case h (CanonicalMIMEHeaderKey key) of
        None \<Rightarrow> ''''
      | Some [] \<Rightarrow> ''''
      | Some (v # vs) \<Rightarrow> v)"

definition Header_Set :: "Header \<Rightarrow> string \<Rightarrow> string \<Rightarrow> Header" where
  "Header_Set h key v = h(CanonicalMIMEHeaderKey key \<mapsto> [v])"

text \<open>\<open>strings.Contains(s, substr)\<close>: \<open>substr\<close> occurs in \<open>s\<close> as a contiguous run.\<close>

definition strings_Contains :: "string \<Rightarrow> string \<Rightarrow> bool" where
  "strings_Contains s substr = sublist substr s"

section \<open>The tracer, as the front door uses it\<close>

text \<open>
  A value of the interface \<open>opentracing.SpanContext\<close>: either its dynamic type is
  \<open>jaeger.SpanContext\<close>, which carries a trace ID of type \<open>'t\<close>, or it is of some other
  type. The type assertion of \<open>grpcHandlerFunc\<close> tells the two apart.
\<close>

datatype 't SpanContext = JaegerSpanContext 't | ForeignSpanContext

text \<open>
  The options passed to \<open>StartSpan\<close>: \<open>ext.RPCServerOption(parent)\<close> and
  \<open>opentracing.ChildOf(parent)\<close>, whose parent may be nil, and a tag.
\<close>

datatype 't StartSpanOption =
    RPCServerOption "'t SpanContext option"
  | ChildOf "'t SpanContext option"
  | Tag string string

record 't Span =
  OperationName :: string
  StartOptions :: "'t StartSpanOption list"
  SpanContext_of :: "'t SpanContext"

text \<open>
  The global tracer is an external collaborator: \<open>Extract\<close> reads a parent context from
  the inbound headers and returns it with an error (both may be nil), and
  \<open>NewSpanContext\<close> stands for the identity the tracer gives to a span it starts.
\<close>

record 't Tracer =
  Extract :: "Header \<Rightarrow> 't SpanContext option \<times> go_error option"
  NewSpanContext :: "string \<Rightarrow> 't StartSpanOption list \<Rightarrow> 't SpanContext"

definition StartSpan :: "'t Tracer \<Rightarrow> string \<Rightarrow> 't StartSpanOption list \<Rightarrow> 't Span" where
  "StartSpan tracer operationName opts =
     \<lparr>OperationName = operationName, StartOptions = opts,
      SpanContext_of = NewSpanContext tracer operationName opts\<rparr>"

text \<open>\<open>grpcGatewayTag\<close>: the key is \<open>ext.Component\<close>, the string \<open>component\<close>.\<close>

definition grpcGatewayTag :: "'t StartSpanOption" where
  "grpcGatewayTag = Tag ''component'' ''grpc-gateway''"

text \<open>\<open>jaeger.TraceContextHeaderName\<close>.\<close>

definition TraceContextHeaderName :: string where
  "TraceContextHeaderName = ''uber-trace-id''"

text \<open>
  The part of a \<open>context.Context\<close> that tracing touches: the span attached with
  \<open>opentracing.ContextWithSpan\<close>, and the trace context carried in the RPC metadata
  (outgoing at a client, incoming at a server).
\<close>

record 't Ctx =
  ActiveSpan :: "'t Span option"
  TraceMetadata :: "'t SpanContext option"

definition ContextWithSpan :: "'t Ctx \<Rightarrow> 't Span \<Rightarrow> 't Ctx" where
  "ContextWithSpan ctx sp = ctx\<lparr>ActiveSpan := Some sp\<rparr>"

definition context_Background :: "'t Ctx" where
  "context_Background = \<lparr>ActiveSpan = None, TraceMetadata = None\<rparr>"

section \<open>The protocol multiplexer\<close>

text \<open>
  The part of \<open>http.Request\<close> the front door reads or replaces: the protocol major
  version, the headers, and the request's context.
\<close>

record 't Request =
  ProtoMajor :: int
  Header :: Header
  Context :: "'t Ctx"

text \<open>How a call of a backend handler ends: it returns, or it panics.\<close>

datatype outcome = Returns | Panics

text \<open>
  What one run of the front door does, in order. The two \<open>ServeHTTP\<close> actions record the
  response headers and the request that the backend handler is given.
\<close>

datatype 't action =
    ZapInfo string
  | SpanStarted "'t Span"
  | SpanFinished "'t Span"
  | GrpcServeHTTP Header "'t Request"
  | OtherServeHTTP Header "'t Request"

text \<open>
  \<open>grpcHandlerFunc\<close> (main.go). The handler it builds is run once per request by the
  h2c wrapper. The parameters are the global tracer, \<open>fmt.Sprint\<close> on a trace ID, and the
  two backend handlers, of which only the outcome matters here. \<open>w\<close> is the header map of
  the response writer. \<open>defer serverSpan.Finish()\<close> runs when the function is left, whether
  \<open>otherHandler.ServeHTTP\<close> returned or panicked, so the finish follows the call in both
  cases and the outcome is passed on.
\<close>

definition grpcHandlerFunc ::
  "'t Tracer \<Rightarrow> ('t \<Rightarrow> string) \<Rightarrow> (Header \<Rightarrow> 't Request \<Rightarrow> outcome) \<Rightarrow>
   (Header \<Rightarrow> 't Request \<Rightarrow> outcome) \<Rightarrow> Header \<Rightarrow> 't Request \<Rightarrow> 't action list \<times> outcome" where
  "grpcHandlerFunc tracer sprint grpcServer otherHandler w r =
     (if ProtoMajor r = 2 \<and> strings_Contains (Header_Get (Header r) ''Content-Type'') ''application/grpc''
      then ([ZapInfo ''match grpc call'', GrpcServeHTTP w r], grpcServer w r)
      else
        (case Extract tracer (Header r) of
           (parentSpanContext, err) \<Rightarrow>
             if err = None \<or> err = Some ErrSpanContextNotFound
             then
               (let serverSpan = StartSpan tracer ''ServeHTTP''
                                   [RPCServerOption parentSpanContext, grpcGatewayTag];
                    r' = r\<lparr>Context := ContextWithSpan (Context r) serverSpan\<rparr>;
                    w' = (case SpanContext_of serverSpan of
                            JaegerSpanContext trace \<Rightarrow> Header_Set w TraceContextHeaderName (sprint trace)
                          | ForeignSpanContext \<Rightarrow> w)
                in ([ZapInfo ''match http web call'', SpanStarted serverSpan,
                     OtherServeHTTP w' r', SpanFinished serverSpan],
                    otherHandler w' r'))
             else ([ZapInfo ''match http web call'', OtherServeHTTP w r], otherHandler w r)))"

text \<open>The route decision a run took, read off its actions.\<close>

datatype route = NativeRPC | Gateway

fun dispatched :: "'t action \<Rightarrow> route option" where
  "dispatched (GrpcServeHTTP w r) = Some NativeRPC"
| "dispatched (OtherServeHTTP w r) = Some Gateway"
| "dispatched a = None"

definition routes :: "'t action list \<Rightarrow> route list" where
  "routes acts = List.map_filter dispatched acts"

text \<open>
  What a run of the front door shows: the spans it started and finished itself, and the
  response headers and request it handed to the gateway handler.
\<close>

fun span_started :: "'t action \<Rightarrow> 't Span option" where
  "span_started (SpanStarted s) = Some s"
| "span_started a = None"

fun span_finished :: "'t action \<Rightarrow> 't Span option" where
  "span_finished (SpanFinished s) = Some s"
| "span_finished a = None"

fun handed_on :: "'t action \<Rightarrow> (Header \<times> 't Request) option" where
  "handed_on (OtherServeHTTP w r) = Some (w, r)"
| "handed_on a = None"

definition front_spans_started :: "'t action list \<Rightarrow> 't Span list" where
  "front_spans_started acts = List.map_filter span_started acts"

definition front_spans_finished :: "'t action list \<Rightarrow> 't Span list" where
  "front_spans_finished acts = List.map_filter span_finished acts"

definition gateway_served :: "'t action list \<Rightarrow> (Header \<times> 't Request) list" where
  "gateway_served acts = List.map_filter handed_on acts"

text \<open>
  The condition of the native branch, and the condition under which the gateway branch
  starts a span.
\<close>

definition native_traffic :: "'t Request \<Rightarrow> bool" where
  "native_traffic r =
     (ProtoMajor r = 2 \<and> strings_Contains (Header_Get (Header r) ''Content-Type'') ''application/grpc'')"

definition extraction_accepted :: "go_error option \<Rightarrow> bool" where
  "extraction_accepted err = (err = None \<or> err = Some ErrSpanContextNotFound)"

section \<open>Messages of the Greeter service\<close>

text \<open>The well-known structured value of \<open>structpb\<close>, which \<open>HelloReply\<close> may carry.\<close>

datatype structpb_Value =
    NullValue
  | NumberValue real
  | StringValue string
  | BoolValue bool
  | StructValue "(string \<times> structpb_Value) list"
  | ListValue "structpb_Value list"

record UserReq =
  Id :: "64 word"

record UserRes =
  Id :: "64 word"
  Name :: string
  Email :: string
  Phone :: string

record HelloRequest =
  Name :: string

record HelloReply =
  Message :: string
  Data :: "structpb_Value list option"
  Obj :: "(string \<times> structpb_Value) list option"

datatype Empty = Empty

definition Greeter_SayHello_FullMethodName :: string where
  "Greeter_SayHello_FullMethodName = ''/grpc.greeter.helloworld.Greeter/SayHello''"

definition Greeter_Logout_FullMethodName :: string where
  "Greeter_Logout_FullMethodName = ''/grpc.greeter.helloworld.Greeter/Logout''"

definition Greeter_GetUser_FullMethodName :: string where
  "Greeter_GetUser_FullMethodName = ''/grpc.greeter.helloworld.Greeter/GetUser''"

section \<open>Unary calls\<close>

text \<open>
  A request as an interceptor sees it, an \<open>interface{}\<close>: the message, and what the type
  assertion \<open>req.(Validator)\<close> finds. \<open>ValidateAll\<close> is \<open>None\<close> when the dynamic type has no
  such method; otherwise it holds what the method returns on this message (\<open>None\<close> for a
  nil error).
\<close>

record 'm Any =
  dynamic_value :: 'm
  ValidateAll :: "go_error option option"

text \<open>
  What a unary call does besides returning, in order: the lines written to the logger and
  the spans started and finished. A finished span records whether it was tagged as failed.
\<close>

datatype ('t, 'm) event =
    Infof string "'m Any"
  | Errorf string go_error
  | WithTrace_Infof "'t Ctx" string string
  | RPCSpanStarted "'t Span"
  | RPCSpanFinished "'t Span" bool

text \<open>The Go result pair \<open>(resp, err)\<close>; either part may be nil.\<close>

type_synonym 'r reply = "'r option \<times> go_error option"

type_synonym ('t, 'm, 'r) UnaryHandler =
  "'t Ctx \<Rightarrow> 'm Any \<Rightarrow> 'r reply \<times> ('t, 'm) event list"

text \<open>
  \<open>grpc.UnaryServerInfo\<close>. Its other field, \<open>Server\<close>, is the service implementation,
  which no interceptor of this program reads.
\<close>

record UnaryServerInfo =
  FullMethod :: string

type_synonym ('t, 'm, 'r) UnaryServerInterceptor =
  "'t Ctx \<Rightarrow> 'm Any \<Rightarrow> UnaryServerInfo \<Rightarrow> ('t, 'm, 'r) UnaryHandler
     \<Rightarrow> 'r reply \<times> ('t, 'm) event list"

text \<open>\<open>ServerValidationUnaryInterceptor\<close> (main.go).\<close>

definition ServerValidationUnaryInterceptor :: "('t, 'm, 'r) UnaryServerInterceptor" where
  "ServerValidationUnaryInterceptor ctx req info handler =
     (case ValidateAll req of
        Some (Some err) \<Rightarrow>
          ((None, Some err), [Infof ''%+v'' req, Errorf ''req validate error %v'' err])
      | Some None \<Rightarrow>
          (case handler ctx req of (res, es) \<Rightarrow> (res, Infof ''%+v'' req # es))
      | None \<Rightarrow>
          (case handler ctx req of (res, es) \<Rightarrow> (res, Infof ''%+v'' req # es)))"

text \<open>
  Modelled from the spec: \<open>grpc.ChainUnaryInterceptor\<close>, a function of the RPC library
  whose source is not part of the repository. The first interceptor is the outermost and
  the last one wraps the real handler.
\<close>

fun ChainUnaryInterceptor ::
  "('t, 'm, 'r) UnaryServerInterceptor list \<Rightarrow> ('t, 'm, 'r) UnaryServerInterceptor" where
  "ChainUnaryInterceptor [] ctx req info handler = handler ctx req"
| "ChainUnaryInterceptor (i # rest) ctx req info handler =
     i ctx req info (\<lambda>c q. ChainUnaryInterceptor rest c q info handler)"

text \<open>
  Modelled from the spec: the trace stage, \<open>grpc_opentracing.UnaryServerInterceptor\<close>, a
  function of the middleware library whose source is not part of the repository. On entry
  it starts a span named after the method, child of the parent found in the inbound
  metadata when there is one and a root span otherwise; it attaches the span to the context
  given to the inner stages; when they return it finishes the span, tagged as failed when
  the call ended with an error; the result goes out unchanged.
\<close>

definition opentracing_UnaryServerInterceptor ::
  "'t Tracer \<Rightarrow> ('t, 'm, 'r) UnaryServerInterceptor" where
  "opentracing_UnaryServerInterceptor tracer ctx req info handler =
     (let serverSpan = StartSpan tracer (FullMethod info)
                         [RPCServerOption (TraceMetadata ctx), Tag ''component'' ''gRPC''];
          newCtx = ContextWithSpan ctx serverSpan
      in case handler newCtx req of
           ((resp, err), es) \<Rightarrow>
             ((resp, err),
              RPCSpanStarted serverSpan # es @ [RPCSpanFinished serverSpan (err \<noteq> None)]))"

text \<open>
  The interceptor \<open>main\<close> gives to \<open>grpc.NewServer\<close>: the trace stage with the global
  tracer, then the validation stage.
\<close>

definition server_interceptor :: "'t Tracer \<Rightarrow> ('t, 'm, 'r) UnaryServerInterceptor" where
  "server_interceptor tracer =
     ChainUnaryInterceptor
       [opentracing_UnaryServerInterceptor tracer, ServerValidationUnaryInterceptor]"

section \<open>The Greeter server\<close>

text \<open>The interface \<open>GreeterServer\<close>: a value of it is its three methods.\<close>

record 't GreeterServer =
  SayHello :: "'t Ctx \<Rightarrow> HelloRequest \<Rightarrow> HelloReply reply \<times> ('t, HelloRequest) event list"
  Logout :: "'t Ctx \<Rightarrow> Empty \<Rightarrow> Empty reply \<times> ('t, Empty) event list"
  GetUser :: "'t Ctx \<Rightarrow> UserReq \<Rightarrow> UserRes reply \<times> ('t, UserReq) event list"

text \<open>\<open>UnimplementedGreeterServer\<close> (hello_world_grpc.pb.go).\<close>

definition UnimplementedGreeterServer :: "'t GreeterServer" where
  "UnimplementedGreeterServer =
     \<lparr>SayHello = (\<lambda>ctx req.
        ((None, Some (GRPCStatus Unimplemented ''method SayHello not implemented'')), [])),
      Logout = (\<lambda>ctx req.
        ((None, Some (GRPCStatus Unimplemented ''method Logout not implemented'')), [])),
      GetUser = (\<lambda>ctx req.
        ((None, Some (GRPCStatus Unimplemented ''method GetUser not implemented'')), []))\<rparr>"

text \<open>The two methods that \<open>server\<close> declares itself (main.go).\<close>

definition server_SayHello ::
  "'t Ctx \<Rightarrow> HelloRequest \<Rightarrow> HelloReply reply \<times> ('t, HelloRequest) event list" where
  "server_SayHello ctx in' =
     ((Some \<lparr>Message = Name in' @ '' world'', Data = None, Obj = None\<rparr>, None),
      [WithTrace_Infof ctx ''register name is %d'' (Name in')])"

definition server_Logout ::
  "'t Ctx \<Rightarrow> Empty \<Rightarrow> Empty reply \<times> ('t, Empty) event list" where
  "server_Logout ctx in' = ((Some Empty, None), [])"

text \<open>
  \<open>server\<close> embeds \<open>UnimplementedGreeterServer\<close>: its method set is the embedded one with
  the methods it declares itself in place of the promoted ones. \<open>main\<close> registers
  \<open>&server{}\<close>.
\<close>

definition server :: "'t GreeterServer" where
  "server = UnimplementedGreeterServer\<lparr>SayHello := server_SayHello, Logout := server_Logout\<rparr>"

text \<open>
  The generated method handlers (hello_world_grpc.pb.go, where their names start with an
  underscore). \<open>dec\<close> is the outcome of decoding the request; \<open>interceptor\<close> is nil
  (\<open>None\<close>) or the server's interceptor.
\<close>

definition Greeter_SayHello_Handler ::
  "'t GreeterServer \<Rightarrow> 't Ctx \<Rightarrow> go_error + HelloRequest Any \<Rightarrow>
   ('t, HelloRequest, HelloReply) UnaryServerInterceptor option \<Rightarrow>
   HelloReply reply \<times> ('t, HelloRequest) event list" where
  "Greeter_SayHello_Handler srv ctx dec interceptor =
     (case dec of
        Inl err \<Rightarrow> ((None, Some err), [])
      | Inr in' \<Rightarrow>
          (case interceptor of
             None \<Rightarrow> SayHello srv ctx (dynamic_value in')
           | Some i \<Rightarrow>
               i ctx in' \<lparr>FullMethod = Greeter_SayHello_FullMethodName\<rparr>
                 (\<lambda>ctx req. SayHello srv ctx (dynamic_value req))))"

definition Greeter_Logout_Handler ::
  "'t GreeterServer \<Rightarrow> 't Ctx \<Rightarrow> go_error + Empty Any \<Rightarrow>
   ('t, Empty, Empty) UnaryServerInterceptor option \<Rightarrow>
   Empty reply \<times> ('t, Empty) event list" where
  "Greeter_Logout_Handler srv ctx dec interceptor =
     (case dec of
        Inl err \<Rightarrow> ((None, Some err), [])
      | Inr in' \<Rightarrow>
          (case interceptor of
             None \<Rightarrow> Logout srv ctx (dynamic_value in')
           | Some i \<Rightarrow>
               i ctx in' \<lparr>FullMethod = Greeter_Logout_FullMethodName\<rparr>
                 (\<lambda>ctx req. Logout srv ctx (dynamic_value req))))"

definition Greeter_GetUser_Handler ::
  "'t GreeterServer \<Rightarrow> 't Ctx \<Rightarrow> go_error + UserReq Any \<Rightarrow>
   ('t, UserReq, UserRes) UnaryServerInterceptor option \<Rightarrow>
   UserRes reply \<times> ('t, UserReq) event list" where
  "Greeter_GetUser_Handler srv ctx dec interceptor =
     (case dec of
        Inl err \<Rightarrow> ((None, Some err), [])
      | Inr in' \<Rightarrow>
          (case interceptor of
             None \<Rightarrow> GetUser srv ctx (dynamic_value in')
           | Some i \<Rightarrow>
               i ctx in' \<lparr>FullMethod = Greeter_GetUser_FullMethodName\<rparr>
                 (\<lambda>ctx req. GetUser srv ctx (dynamic_value req))))"

section \<open>The validators of the request messages\<close>

text \<open>
  \<open>utf8.RuneCountInString\<close> on a string that is valid UTF-8, as every string field of a
  decoded message is: each character is one byte that is not a continuation byte
  (\<open>0x80\<close> to \<open>0xBF\<close>) followed by continuation bytes.
\<close>

definition is_continuation :: "char \<Rightarrow> bool" where
  "is_continuation c = (128 \<le> (of_char c :: nat) \<and> (of_char c :: nat) \<le> 191)"

definition utf8_RuneCountInString :: "string \<Rightarrow> nat" where
  "utf8_RuneCountInString s = length (filter (\<lambda>c. \<not> is_continuation c) s)"

text \<open>\<open>strings.Join(elems, sep)\<close>.\<close>

fun strings_Join :: "string list \<Rightarrow> string \<Rightarrow> string" where
  "strings_Join [] sep = []"
| "strings_Join [x] sep = x"
| "strings_Join (x # y # ys) sep = x @ sep @ strings_Join (y # ys) sep"

text \<open>
  Modelled from the spec: the generated validators (hello_world.pb.validate.go is not under
  src/). The spec says that a request message may expose the capability to validate all
  its fields and report a failure, and that not every message does. Which messages do,
  and by which rules, is read off the message descriptor in hello_world.pb.go: the file
  imports validate/validate.proto, and its only field with rules is \<open>HelloRequest.name\<close>,
  with \<open>min_len\<close> 6, \<open>max_len\<close> 16 and the pattern of letters, digits and underscores.
  \<open>ValidateAll\<close> collects the failure of every rule and returns them joined, as an error
  without a status, or nil when there is none. \<open>UserReq\<close> is a message of the same file
  without rules: it has the method, which returns nil. \<open>emptypb.Empty\<close> belongs to
  another package and has no such method.
\<close>

definition HelloRequest_Name_Pattern :: string where
  "HelloRequest_Name_Pattern = ''^[a-zA-Z0-9_]*$''"

text \<open>
  Modelled from the spec: whether the whole of a string matches the pattern above, that
  is, whether each of its bytes is a letter, a digit or an underscore.
\<close>

definition HelloRequest_Name_Pattern_MatchString :: "string \<Rightarrow> bool" where
  "HelloRequest_Name_Pattern_MatchString s =
     list_all (\<lambda>c. is_lower c \<or> is_upper c \<or> is_digit c \<or> c = CHR ''_'') s"

text \<open>
  Modelled from the spec: \<open>ValidateAll\<close> of \<open>HelloRequest\<close>, by the rules named above:
  the length rule first, then the pattern.
\<close>

definition HelloRequest_ValidateAll :: "HelloRequest \<Rightarrow> go_error option" where
  "HelloRequest_ValidateAll m =
     (let l = utf8_RuneCountInString (Name m);
          errors =
            (if l < 6 \<or> 16 < l
             then [''invalid HelloRequest.Name: value length must be between 6 and 16 runes, inclusive'']
             else [])
            @ (if HelloRequest_Name_Pattern_MatchString (Name m) then []
               else [''invalid HelloRequest.Name: value does not match regex pattern ''
                     @ [CHR 0x22] @ HelloRequest_Name_Pattern @ [CHR 0x22]])
      in if errors = [] then None else Some (PlainError (strings_Join errors ''; '')))"

text \<open>
  Modelled from the spec: the three request messages as the interceptors see them, each
  with what its own \<open>ValidateAll\<close> returns when it has the method.
\<close>

definition HelloRequest_Any :: "HelloRequest \<Rightarrow> HelloRequest Any" where
  "HelloRequest_Any m = \<lparr>dynamic_value = m, ValidateAll = Some (HelloRequest_ValidateAll m)\<rparr>"

definition UserReq_Any :: "UserReq \<Rightarrow> UserReq Any" where
  "UserReq_Any m = \<lparr>dynamic_value = m, ValidateAll = Some None\<rparr>"

definition Empty_Any :: "Empty Any" where
  "Empty_Any = \<lparr>dynamic_value = Empty, ValidateAll = None\<rparr>"

section \<open>The server's hop\<close>

text \<open>
  Modelled from the spec: what the RPC server that \<open>main\<close> builds does with a unary call
  (the RPC library's source is not part of the repository). It calls the handler that
  \<open>Greeter_ServiceDesc\<close> lists for the method, with the registered server, the call's
  context, the outcome of decoding the request, and the interceptor given to
  \<open>grpc.NewServer\<close>. The service has these three methods and no streams.
\<close>

definition serve_SayHello ::
  "'t Tracer \<Rightarrow> 't Ctx \<Rightarrow> go_error + HelloRequest Any
     \<Rightarrow> HelloReply reply \<times> ('t, HelloRequest) event list" where
  "serve_SayHello tracer ctx dec =
     Greeter_SayHello_Handler server ctx dec (Some (server_interceptor tracer))"

text \<open>Modelled from the spec: the same for Logout.\<close>

definition serve_Logout ::
  "'t Tracer \<Rightarrow> 't Ctx \<Rightarrow> go_error + Empty Any \<Rightarrow> Empty reply \<times> ('t, Empty) event list" where
  "serve_Logout tracer ctx dec =
     Greeter_Logout_Handler server ctx dec (Some (server_interceptor tracer))"

text \<open>Modelled from the spec: the same for GetUser.\<close>

definition serve_GetUser ::
  "'t Tracer \<Rightarrow> 't Ctx \<Rightarrow> go_error + UserReq Any \<Rightarrow> UserRes reply \<times> ('t, UserReq) event list" where
  "serve_GetUser tracer ctx dec =
     Greeter_GetUser_Handler server ctx dec (Some (server_interceptor tracer))"

text \<open>The span the server's trace stage starts for a call, and the one the client's does.\<close>

definition server_span :: "'t Tracer \<Rightarrow> 't Ctx \<Rightarrow> string \<Rightarrow> 't Span" where
  "server_span tracer ctx method =
     StartSpan tracer method [RPCServerOption (TraceMetadata ctx), Tag ''component'' ''gRPC'']"

definition client_span :: "'t Tracer \<Rightarrow> 't Ctx \<Rightarrow> string \<Rightarrow> 't Span" where
  "client_span tracer ctx method =
     StartSpan tracer method
       [ChildOf (map_option SpanContext_of (ActiveSpan ctx)), Tag ''component'' ''gRPC'']"

text \<open>
  The context with which a call from the gateway's client enters the server: no span
  attached, and in the metadata the context of the client's span.
\<close>

definition hop_Ctx :: "'t Tracer \<Rightarrow> 't Ctx \<Rightarrow> string \<Rightarrow> 't Ctx" where
  "hop_Ctx tracer ctx method =
     \<lparr>ActiveSpan = None, TraceMetadata = Some (SpanContext_of (client_span tracer ctx method))\<rparr>"

section \<open>The gateway's client hop\<close>

text \<open>\<open>codes.Code.String()\<close>.\<close>

fun Code_String :: "codes \<Rightarrow> string" where
  "Code_String OK = ''OK''"
| "Code_String Canceled = ''Canceled''"
| "Code_String Unknown = ''Unknown''"
| "Code_String InvalidArgument = ''InvalidArgument''"
| "Code_String DeadlineExceeded = ''DeadlineExceeded''"
| "Code_String NotFound = ''NotFound''"
| "Code_String AlreadyExists = ''AlreadyExists''"
| "Code_String PermissionDenied = ''PermissionDenied''"
| "Code_String ResourceExhausted = ''ResourceExhausted''"
| "Code_String FailedPrecondition = ''FailedPrecondition''"
| "Code_String Aborted = ''Aborted''"
| "Code_String OutOfRange = ''OutOfRange''"
| "Code_String Unimplemented = ''Unimplemented''"
| "Code_String Internal = ''Internal''"
| "Code_String Unavailable = ''Unavailable''"
| "Code_String DataLoss = ''DataLoss''"
| "Code_String Unauthenticated = ''Unauthenticated''"

text \<open>\<open>err.Error()\<close>.\<close>

fun Error :: "go_error \<Rightarrow> string" where
  "Error (GRPCStatus c m) = ''rpc error: code = '' @ Code_String c @ '' desc = '' @ m"
| "Error ErrSpanContextNotFound = ''opentracing: SpanContext not found in Extract carrier''"
| "Error ErrSpanContextCorrupted = ''opentracing: SpanContext data corrupted in Extract carrier''"
| "Error (PlainError m) = m"

text \<open>
  The message of the status of an error: the status's own message, or the error's text
  for an error without a status.
\<close>

fun status_Message :: "go_error \<Rightarrow> string" where
  "status_Message (GRPCStatus c m) = m"
| "status_Message e = Error e"

text \<open>
  Modelled from the spec: how the RPC library sends a handler's error to the peer (its
  source is not part of the repository). A status error travels as it is; any other error
  travels as a status of kind \<open>Unknown\<close> with the error's text.
\<close>

definition status_Convert :: "go_error \<Rightarrow> go_error" where
  "status_Convert e = GRPCStatus (status_Code (Some e)) (status_Message e)"

text \<open>
  \<open>invoker(ctx, method, req, reply, cc, opts...)\<close>: it fills \<open>reply\<close> and returns an error.
\<close>

type_synonym ('t, 'm, 'r) UnaryInvoker =
  "'t Ctx \<Rightarrow> string \<Rightarrow> 'm Any \<Rightarrow> 'r \<Rightarrow> ('r \<times> go_error option) \<times> ('t, 'm) event list"

type_synonym ('t, 'm, 'r) UnaryClientInterceptor =
  "'t Ctx \<Rightarrow> string \<Rightarrow> 'm Any \<Rightarrow> 'r \<Rightarrow> ('t, 'm, 'r) UnaryInvoker
     \<Rightarrow> ('r \<times> go_error option) \<times> ('t, 'm) event list"

text \<open>
  Modelled from the spec: the client-side trace stage,
  \<open>grpc_opentracing.UnaryClientInterceptor\<close>, a function of the middleware library whose
  source is not part of the repository. It starts a span named after the method, child of
  the span attached to the caller's context when there is one, puts the new span's context
  into the outgoing metadata, invokes the call, and finishes the span when the call
  returns.
\<close>

definition opentracing_UnaryClientInterceptor ::
  "'t Tracer \<Rightarrow> ('t, 'm, 'r) UnaryClientInterceptor" where
  "opentracing_UnaryClientInterceptor tracer ctx method req reply invoker =
     (let clientSpan = StartSpan tracer method
                         [ChildOf (map_option SpanContext_of (ActiveSpan ctx)),
                          Tag ''component'' ''gRPC''];
          newCtx = ContextWithSpan
                     (ctx\<lparr>TraceMetadata := Some (SpanContext_of clientSpan)\<rparr>) clientSpan
      in case invoker newCtx method req reply of
           ((out, err), es) \<Rightarrow>
             ((out, err),
              RPCSpanStarted clientSpan # es @ [RPCSpanFinished clientSpan (err \<noteq> None)]))"

text \<open>
  Modelled from the spec: \<open>ClientConn.Invoke\<close> of the RPC library. With a unary
  interceptor among the dial options the call goes through it, otherwise straight to the
  transport.
\<close>

definition ClientConn_Invoke ::
  "('t, 'm, 'r) UnaryClientInterceptor option \<Rightarrow> ('t, 'm, 'r) UnaryInvoker
     \<Rightarrow> ('t, 'm, 'r) UnaryInvoker" where
  "ClientConn_Invoke interceptor transport ctx method args reply =
     (case interceptor of
        None \<Rightarrow> transport ctx method args reply
      | Some i \<Rightarrow> i ctx method args reply transport)"

text \<open>
  The dial options \<open>main\<close> gives to the gateway's client: one unary interceptor, the
  client-side trace stage with the global tracer.
\<close>

definition dial_interceptor :: "'t Tracer \<Rightarrow> ('t, 'm, 'r) UnaryClientInterceptor option" where
  "dial_interceptor tracer = Some (opentracing_UnaryClientInterceptor tracer)"

text \<open>
  The methods of \<open>greeterClient\<close> (hello_world_grpc.pb.go); \<open>cc\<close> is \<open>c.cc.Invoke\<close>, and
  the reply handed to it is the zero value that \<open>new\<close> allocates.
\<close>

definition greeterClient_SayHello ::
  "('t, HelloRequest, HelloReply) UnaryInvoker \<Rightarrow> 't Ctx \<Rightarrow> HelloRequest Any
     \<Rightarrow> HelloReply reply \<times> ('t, HelloRequest) event list" where
  "greeterClient_SayHello cc ctx in' =
     (case cc ctx Greeter_SayHello_FullMethodName in' \<lparr>Message = [], Data = None, Obj = None\<rparr> of
        ((out, err), es) \<Rightarrow>
          if err \<noteq> None then ((None, err), es) else ((Some out, None), es))"

definition greeterClient_Logout ::
  "('t, Empty, Empty) UnaryInvoker \<Rightarrow> 't Ctx \<Rightarrow> Empty Any
     \<Rightarrow> Empty reply \<times> ('t, Empty) event list" where
  "greeterClient_Logout cc ctx in' =
     (case cc ctx Greeter_Logout_FullMethodName in' Empty of
        ((out, err), es) \<Rightarrow>
          if err \<noteq> None then ((None, err), es) else ((Some out, None), es))"

definition greeterClient_GetUser ::
  "('t, UserReq, UserRes) UnaryInvoker \<Rightarrow> 't Ctx \<Rightarrow> UserReq Any
     \<Rightarrow> UserRes reply \<times> ('t, UserReq) event list" where
  "greeterClient_GetUser cc ctx in' =
     (case cc ctx Greeter_GetUser_FullMethodName in'
             \<lparr>UserRes.Id = 0, UserRes.Name = [], UserRes.Email = [], UserRes.Phone = []\<rparr> of
        ((out, err), es) \<Rightarrow>
          if err \<noteq> None then ((None, err), es) else ((Some out, None), es))"

text \<open>
  Modelled from the spec: the wire between the gateway's client and the server on the same
  address. The call enters the server with the metadata the client sent and no span
  attached; the request the client encoded decodes to itself; the call runs as the server
  runs every call of the method (\<open>serve\<close>); an error comes back as a status and leaves
  \<open>reply\<close> as it was.
\<close>

definition loopback ::
  "('t Ctx \<Rightarrow> go_error + 'm Any \<Rightarrow> 'r reply \<times> ('t, 'm) event list)
     \<Rightarrow> ('t, 'm, 'r) UnaryInvoker" where
  "loopback serve ctx method args reply =
     (case serve \<lparr>ActiveSpan = None, TraceMetadata = TraceMetadata ctx\<rparr> (Inr args) of
        ((resp, err), es) \<Rightarrow>
          (case err of
             Some e \<Rightarrow> ((reply, Some (status_Convert e)), es)
           | None \<Rightarrow>
               (case resp of
                  Some r \<Rightarrow> ((r, None), es)
                | None \<Rightarrow> ((reply, Some (GRPCStatus Internal ''grpc: error while marshaling'')), es))))"

text \<open>
  A call that comes from the gateway: the gateway's client, dialled with \<open>main\<close>'s dial
  options, calls the server on the same address.
\<close>

definition gateway_SayHello ::
  "'t Tracer \<Rightarrow> 't Ctx \<Rightarrow> HelloRequest Any \<Rightarrow> HelloReply reply \<times> ('t, HelloRequest) event list" where
  "gateway_SayHello tracer ctx req =
     greeterClient_SayHello
       (ClientConn_Invoke (dial_interceptor tracer) (loopback (serve_SayHello tracer))) ctx req"

text \<open>The same for Logout and for GetUser.\<close>

definition gateway_Logout ::
  "'t Tracer \<Rightarrow> 't Ctx \<Rightarrow> Empty Any \<Rightarrow> Empty reply \<times> ('t, Empty) event list" where
  "gateway_Logout tracer ctx req =
     greeterClient_Logout
       (ClientConn_Invoke (dial_interceptor tracer) (loopback (serve_Logout tracer))) ctx req"

definition gateway_GetUser ::
  "'t Tracer \<Rightarrow> 't Ctx \<Rightarrow> UserReq Any \<Rightarrow> UserRes reply \<times> ('t, UserReq) event list" where
  "gateway_GetUser tracer ctx req =
     greeterClient_GetUser
       (ClientConn_Invoke (dial_interceptor tracer) (loopback (serve_GetUser tracer))) ctx req"

text \<open>What a run shows of its stages: the spans it started and finished, and the requests
  that entered the validation stage (each entry logs the request).\<close>

fun started :: "('t, 'm) event \<Rightarrow> 't Span option" where
  "started (RPCSpanStarted s) = Some s"
| "started e = None"

fun finished :: "('t, 'm) event \<Rightarrow> 't Span option" where
  "finished (RPCSpanFinished s failed) = Some s"
| "finished e = None"

fun validated :: "('t, 'm) event \<Rightarrow> 'm Any option" where
  "validated (Infof f q) = Some q"
| "validated e = None"

definition spans_started :: "('t, 'm) event list \<Rightarrow> 't Span list" where
  "spans_started es = List.map_filter started es"

definition spans_finished :: "('t, 'm) event list \<Rightarrow> 't Span list" where
  "spans_finished es = List.map_filter finished es"

definition validations :: "('t, 'm) event list \<Rightarrow> 'm Any list" where
  "validations es = List.map_filter validated es"

section \<open>The gateway's HTTP side of SayHello\<close>

text \<open>
  A JSON value is written as a \<open>structpb_Value\<close>, the well-known type that is the image
  of JSON in the message format. The generated gateway code (hello_world.pb.gw.go) and the
  gateway library are not under src/; what this section says of them follows the spec's
  description of the gateway translator.
\<close>

text \<open>
  Modelled from the spec: the fixed mapping from the kind of an RPC error to an HTTP
  status (invalid argument to 400, unimplemented to 501, internal and unknown to 500).
\<close>

fun HTTPStatusFromCode :: "codes \<Rightarrow> nat" where
  "HTTPStatusFromCode OK = 200"
| "HTTPStatusFromCode Canceled = 499"
| "HTTPStatusFromCode Unknown = 500"
| "HTTPStatusFromCode InvalidArgument = 400"
| "HTTPStatusFromCode DeadlineExceeded = 504"
| "HTTPStatusFromCode NotFound = 404"
| "HTTPStatusFromCode AlreadyExists = 409"
| "HTTPStatusFromCode PermissionDenied = 403"
| "HTTPStatusFromCode ResourceExhausted = 429"
| "HTTPStatusFromCode FailedPrecondition = 400"
| "HTTPStatusFromCode Aborted = 409"
| "HTTPStatusFromCode OutOfRange = 400"
| "HTTPStatusFromCode Unimplemented = 501"
| "HTTPStatusFromCode Internal = 500"
| "HTTPStatusFromCode Unavailable = 503"
| "HTTPStatusFromCode DataLoss = 500"
| "HTTPStatusFromCode Unauthenticated = 401"

text \<open>Modelled from the spec: the number of a status code, as the error body shows it.\<close>

fun Code_number :: "codes \<Rightarrow> nat" where
  "Code_number OK = 0"
| "Code_number Canceled = 1"
| "Code_number Unknown = 2"
| "Code_number InvalidArgument = 3"
| "Code_number DeadlineExceeded = 4"
| "Code_number NotFound = 5"
| "Code_number AlreadyExists = 6"
| "Code_number PermissionDenied = 7"
| "Code_number ResourceExhausted = 8"
| "Code_number FailedPrecondition = 9"
| "Code_number Aborted = 10"
| "Code_number OutOfRange = 11"
| "Code_number Unimplemented = 12"
| "Code_number Internal = 13"
| "Code_number Unavailable = 14"
| "Code_number DataLoss = 15"
| "Code_number Unauthenticated = 16"

text \<open>
  Modelled from the spec: the response for a call that ended with an error: the HTTP
  status of the error's kind, and a JSON object with the code and the message.
\<close>

definition HTTPError :: "go_error \<Rightarrow> nat \<times> structpb_Value" where
  "HTTPError e =
     (HTTPStatusFromCode (status_Code (Some e)),
      StructValue
        [(''code'', NumberValue (of_nat (Code_number (status_Code (Some e))))),
         (''message'', StringValue (status_Message e)),
         (''details'', ListValue [])])"

text \<open>
  Modelled from the spec: reading the JSON body into the request message. The member
  \<open>name\<close> gives the field, absent or null leaves it empty, members with other names are
  passed over; anything else is refused.
\<close>

definition decode_HelloRequest :: "structpb_Value \<Rightarrow> go_error + HelloRequest" where
  "decode_HelloRequest body =
     (case body of
        StructValue members \<Rightarrow>
          (case map_of members ''name'' of
             None \<Rightarrow> Inr \<lparr>Name = []\<rparr>
           | Some (StringValue n) \<Rightarrow> Inr \<lparr>Name = n\<rparr>
           | Some NullValue \<Rightarrow> Inr \<lparr>Name = []\<rparr>
           | Some v \<Rightarrow> Inl (PlainError ''proto: syntax error: invalid value for string field name''))
      | v \<Rightarrow> Inl (PlainError ''proto: syntax error: unexpected token''))"

text \<open>
  Modelled from the spec: writing the reply as a JSON object under the fields' own names,
  an unset message field as null.
\<close>

definition encode_HelloReply :: "HelloReply \<Rightarrow> structpb_Value" where
  "encode_HelloReply r =
     StructValue
       [(''message'', StringValue (Message r)),
        (''data'', case Data r of None \<Rightarrow> NullValue | Some l \<Rightarrow> ListValue l),
        (''obj'', case Obj r of None \<Rightarrow> NullValue | Some members \<Rightarrow> StructValue members)]"

text \<open>
  Modelled from the spec: the gateway's route for SayHello. A body that cannot be read is
  a client error; otherwise the method is called through the gateway's client, and the
  reply goes out with status 200, an error of the call as above.
\<close>

definition gateway_http_SayHello ::
  "'t Tracer \<Rightarrow> 't Ctx \<Rightarrow> structpb_Value
     \<Rightarrow> (nat \<times> structpb_Value) \<times> ('t, HelloRequest) event list" where
  "gateway_http_SayHello tracer ctx body =
     (case decode_HelloRequest body of
        Inl e \<Rightarrow> (HTTPError (GRPCStatus InvalidArgument (Error e)), [])
      | Inr m \<Rightarrow>
          (case gateway_SayHello tracer ctx (HelloRequest_Any m) of
             ((resp, Some e), es) \<Rightarrow> (HTTPError e, es)
           | ((Some r, None), es) \<Rightarrow> ((200, encode_HelloReply r), es)
           | ((None, None), es) \<Rightarrow>
               (HTTPError (GRPCStatus Internal ''empty response''), es)))"

section \<open>Concrete runs\<close>

text \<open>Concrete values used to run the front door.\<close>

definition demo_tracer :: "nat Tracer" where
  "demo_tracer =
     \<lparr>Extract = (\<lambda>h. case h ''Uber-Trace-Id'' of
                       None \<Rightarrow> (None, Some ErrSpanContextNotFound)
                     | Some [] \<Rightarrow> (None, Some ErrSpanContextNotFound)
                     | Some (v # vs) \<Rightarrow>
                         if v = ''2a:1:0:1'' then (Some (JaegerSpanContext 42), None)
                         else (None, Some ErrSpanContextCorrupted)),
      NewSpanContext = (\<lambda>operationName opts.
                          case opts of
                            RPCServerOption (Some (JaegerSpanContext t)) # rest \<Rightarrow> JaegerSpanContext t
                          | _ \<Rightarrow> JaegerSpanContext 7)\<rparr>"

definition demo_sprint :: "nat \<Rightarrow> string" where
  "demo_sprint t = (if t = 42 then ''000000000000002a'' else ''0000000000000007'')"

definition no_headers :: Header where
  "no_headers = Map.empty"

definition always_returns :: "Header \<Rightarrow> nat Request \<Rightarrow> outcome" where
  "always_returns w r = Returns"

definition grpc_request :: "nat Request" where
  "grpc_request =
     \<lparr>ProtoMajor = 2, Header = [''Content-Type'' \<mapsto> [''application/grpc+proto'']], Context = context_Background\<rparr>"

definition json_request :: "nat Request" where
  "json_request =
     \<lparr>ProtoMajor = 1, Header = [''Content-Type'' \<mapsto> [''application/json'']], Context = context_Background\<rparr>"

definition h2_json_request :: "nat Request" where
  "h2_json_request =
     \<lparr>ProtoMajor = 2, Header = [''Content-Type'' \<mapsto> [''application/json'']], Context = context_Background\<rparr>"

definition corrupted_trace_request :: "nat Request" where
  "corrupted_trace_request =
     \<lparr>ProtoMajor = 1,
      Header = [''Content-Type'' \<mapsto> [''application/json''], ''Uber-Trace-Id'' \<mapsto> [''not-a-trace'']],
      Context = context_Background\<rparr>"

definition ada_request :: "HelloRequest Any" where
  "ada_request = HelloRequest_Any \<lparr>Name = ''Ada''\<rparr>"

definition ada_rejection :: go_error where
  "ada_rejection =
     PlainError ''invalid HelloRequest.Name: value length must be between 6 and 16 runes, inclusive''"

definition lovelace_request :: "HelloRequest Any" where
  "lovelace_request = HelloRequest_Any \<lparr>Name = ''Ada_Lovelace''\<rparr>"

definition undecodable :: go_error where
  "undecodable = GRPCStatus Internal ''grpc: error unmarshalling request''"

definition Logout_info :: UnaryServerInfo where
  "Logout_info = \<lparr>FullMethod = Greeter_Logout_FullMethodName\<rparr>"

definition Logout_handler :: "(nat, Empty, Empty) UnaryHandler" where
  "Logout_handler ctx req = Logout server ctx (dynamic_value req)"

definition SayHello_info :: UnaryServerInfo where
  "SayHello_info = \<lparr>FullMethod = Greeter_SayHello_FullMethodName\<rparr>"

definition SayHello_handler :: "(nat, HelloRequest, HelloReply) UnaryHandler" where
  "SayHello_handler ctx req = SayHello server ctx (dynamic_value req)"

definition demo_server_span :: "nat Span" where
  "demo_server_span =
     \<lparr>OperationName = Greeter_SayHello_FullMethodName,
      StartOptions = [RPCServerOption None, Tag ''component'' ''gRPC''],
      SpanContext_of = JaegerSpanContext 7\<rparr>"

definition demo_client_span :: "nat Span" where
  "demo_client_span =
     \<lparr>OperationName = Greeter_SayHello_FullMethodName,
      StartOptions = [ChildOf None, Tag ''component'' ''gRPC''],
      SpanContext_of = JaegerSpanContext 7\<rparr>"

definition demo_front_span :: "nat Span" where
  "demo_front_span =
     \<lparr>OperationName = ''ServeHTTP'',
      StartOptions = [RPCServerOption None, Tag ''component'' ''grpc-gateway''],
      SpanContext_of = JaegerSpanContext 7\<rparr>"

section \<open>Routing\<close>

lemma routes_grpcHandlerFunc:
  "routes (fst (grpcHandlerFunc tracer sprint grpcServer otherHandler w r)) =
     [if ProtoMajor r = 2 \<and> strings_Contains (Header_Get (Header r) ''Content-Type'') ''application/grpc''
      then NativeRPC else Gateway]"
  by (simp add: grpcHandlerFunc_def routes_def Let_def split: prod.split SpanContext.split)

text \<open>
  C1. A request is handed to the native RPC server exactly when its protocol major version
  is 2 and its Content-Type header value contains \<open>application/grpc\<close>; every other request
  is handed to the gateway handler; and every request is handed to exactly one of the two.
\<close>

theorem C1_route_decision:
  "(routes (fst (grpcHandlerFunc tracer sprint grpcServer otherHandler w r)) = [NativeRPC]
      \<longleftrightarrow> (ProtoMajor r = 2 \<and>
           (\<exists>ps ss. Header_Get (Header r) ''Content-Type'' = ps @ ''application/grpc'' @ ss)))
   \<and> (routes (fst (grpcHandlerFunc tracer sprint grpcServer otherHandler w r)) = [Gateway]
      \<longleftrightarrow> \<not> (ProtoMajor r = 2 \<and>
           (\<exists>ps ss. Header_Get (Header r) ''Content-Type'' = ps @ ''application/grpc'' @ ss)))
   \<and> length (routes (fst (grpcHandlerFunc tracer sprint grpcServer otherHandler w r))) = 1"
  unfolding routes_grpcHandlerFunc strings_Contains_def sublist_def by simp

theorem C1_route_decision_witness:
  "routes (fst (grpcHandlerFunc demo_tracer demo_sprint always_returns always_returns
                  no_headers grpc_request)) = [NativeRPC]
   \<and> routes (fst (grpcHandlerFunc demo_tracer demo_sprint always_returns always_returns
                  no_headers json_request)) = [Gateway]
   \<and> routes (fst (grpcHandlerFunc demo_tracer demo_sprint always_returns always_returns
                  no_headers h2_json_request)) = [Gateway]"
proof -
  have "Header_Get (Header grpc_request) ''Content-Type'' = [] @ ''application/grpc'' @ ''+proto''"
    by code_simp
  then have a: "\<exists>ps ss. Header_Get (Header grpc_request) ''Content-Type'' = ps @ ''application/grpc'' @ ss"
    by blast
  have b: "ProtoMajor grpc_request = 2" "ProtoMajor json_request \<noteq> 2"
    by (simp_all add: grpc_request_def json_request_def)
  have "\<not> sublist ''application/grpc'' (Header_Get (Header h2_json_request) ''Content-Type'')"
    by code_simp
  then have c: "\<not> (\<exists>ps ss. Header_Get (Header h2_json_request) ''Content-Type'' = ps @ ''application/grpc'' @ ss)"
    by (simp add: sublist_def)
  show ?thesis
    using a b c
      C1_route_decision [of demo_tracer demo_sprint always_returns always_returns no_headers grpc_request]
      C1_route_decision [of demo_tracer demo_sprint always_returns always_returns no_headers json_request]
      C1_route_decision [of demo_tracer demo_sprint always_returns always_returns no_headers h2_json_request]
    by simp
qed

section \<open>The validation stage\<close>

lemma validation_cases:
  "ServerValidationUnaryInterceptor ctx req info handler =
     (case ValidateAll req of
        Some (Some err) \<Rightarrow>
          ((None, Some err), [Infof ''%+v'' req, Errorf ''req validate error %v'' err])
      | _ \<Rightarrow> (fst (handler ctx req), Infof ''%+v'' req # snd (handler ctx req)))"
  by (simp add: ServerValidationUnaryInterceptor_def split: prod.split option.split)

text \<open>
  C2, as the code has it. When the request has a \<open>ValidateAll\<close> method and the method
  returns an error, the validation stage returns a nil response and that very error,
  after logging the request and the error; the outcome is the same whatever the handler
  is, so the handler is not called. The stage gives the error no kind of its own: what
  the peer sees is the kind the validation error itself carries.
\<close>

theorem C2_validation_failure_short_circuits:
  "ValidateAll req = Some (Some err) \<Longrightarrow>
   ServerValidationUnaryInterceptor ctx req info handler =
     ((None, Some err), [Infof ''%+v'' req, Errorf ''req validate error %v'' err])"
  by (simp add: validation_cases)

lemma ValidateAll_ada_request: "ValidateAll ada_request = Some (Some ada_rejection)"
  by (simp add: ada_request_def ada_rejection_def HelloRequest_Any_def HelloRequest_ValidateAll_def
        utf8_RuneCountInString_def is_continuation_def HelloRequest_Name_Pattern_MatchString_def
        is_lower_def is_upper_def is_digit_def Let_def)

lemma ValidateAll_lovelace_request: "ValidateAll lovelace_request = Some None"
  by (simp add: lovelace_request_def HelloRequest_Any_def HelloRequest_ValidateAll_def
        utf8_RuneCountInString_def is_continuation_def HelloRequest_Name_Pattern_MatchString_def
        is_lower_def is_upper_def is_digit_def Let_def)

theorem C2_validation_failure_short_circuits_witness:
  "ServerValidationUnaryInterceptor context_Background ada_request SayHello_info SayHello_handler =
     ((None, Some ada_rejection),
      [Infof ''%+v'' ada_request, Errorf ''req validate error %v'' ada_rejection])"
  using ValidateAll_ada_request by (rule C2_validation_failure_short_circuits)

text \<open>
  The claim as stated fails: the request with the name Ada breaks the length rule of
  \<open>HelloRequest\<close>; its \<open>ValidateAll\<close> returns an error without a status, and the call
  is rejected with exactly that error, whose kind is \<open>Unknown\<close>, not \<open>InvalidArgument\<close>.
\<close>

theorem C2_invalid_argument_counterexample:
  "ValidateAll ada_request = Some (Some ada_rejection)
   \<and> status_Code (snd (fst (ServerValidationUnaryInterceptor context_Background ada_request
                               SayHello_info SayHello_handler))) = Unknown
   \<and> status_Code (snd (fst (ServerValidationUnaryInterceptor context_Background ada_request
                               SayHello_info SayHello_handler))) \<noteq> InvalidArgument"
  by (simp add: validation_cases ValidateAll_ada_request) (simp add: ada_rejection_def)

text \<open>
  C3. When the request has no \<open>ValidateAll\<close> method, the validation stage logs the
  request and calls the handler with the same context and request; it returns the
  handler's result unchanged and adds no error of its own.
\<close>

theorem C3_no_capability_runs_handler:
  "ValidateAll req = None \<Longrightarrow>
   ServerValidationUnaryInterceptor ctx req info handler =
     (fst (handler ctx req), Infof ''%+v'' req # snd (handler ctx req))"
  by (simp add: validation_cases)

theorem C3_no_capability_runs_handler_witness:
  "ServerValidationUnaryInterceptor context_Background Empty_Any Logout_info Logout_handler =
     ((Some Empty, None), [Infof ''%+v'' Empty_Any])"
proof -
  have "ValidateAll Empty_Any = None"
    by (simp add: Empty_Any_def)
  from C3_no_capability_runs_handler [OF this, of context_Background Logout_info Logout_handler]
  show ?thesis
    by (simp add: Logout_handler_def server_def server_Logout_def Empty_Any_def)
qed

section \<open>The service methods\<close>

lemma SayHello_server: "SayHello server = server_SayHello"
  by (simp add: server_def)

lemma GetUser_server:
  "GetUser server ctx req =
     ((None, Some (GRPCStatus Unimplemented ''method GetUser not implemented'')), [])"
  by (simp add: server_def UnimplementedGreeterServer_def)

text \<open>
  C10. \<open>GetUser\<close> on the registered server is the method promoted from
  \<open>UnimplementedGreeterServer\<close>: for every context and request, whatever the id, it
  returns a nil response and the status error of kind \<open>Unimplemented\<close>; so does the
  generated handler that calls it.
\<close>

theorem C10_GetUser_unimplemented:
  "GetUser server ctx \<lparr>UserReq.Id = id'\<rparr> =
     ((None, Some (GRPCStatus Unimplemented ''method GetUser not implemented'')), [])
   \<and> fst (fst (GetUser server ctx \<lparr>UserReq.Id = id'\<rparr>)) = None
   \<and> status_Code (snd (fst (GetUser server ctx \<lparr>UserReq.Id = id'\<rparr>))) = Unimplemented
   \<and> GetUser server = GetUser UnimplementedGreeterServer
   \<and> SayHello server = server_SayHello \<and> Logout server = server_Logout
   \<and> Greeter_GetUser_Handler server ctx (Inr in') None =
       ((None, Some (GRPCStatus Unimplemented ''method GetUser not implemented'')), [])"
  by (simp add: GetUser_server Greeter_GetUser_Handler_def) (simp add: server_def)

section \<open>The interceptor chain of the server\<close>

lemma map_filter_append:
  "List.map_filter f (xs @ ys) = List.map_filter f xs @ List.map_filter f ys"
  by (simp add: List.map_filter_def)

lemma server_interceptor_unfold:
  "server_interceptor tracer ctx req info handler =
     (let s = StartSpan tracer (FullMethod info)
                [RPCServerOption (TraceMetadata ctx), Tag ''component'' ''gRPC''];
          inner = ServerValidationUnaryInterceptor (ContextWithSpan ctx s) req info handler
      in (fst inner, RPCSpanStarted s # snd inner @ [RPCSpanFinished s (snd (fst inner) \<noteq> None)]))"
  by (simp add: server_interceptor_def opentracing_UnaryServerInterceptor_def Let_def
           split: prod.split)

lemma spans_started_validation:
  "spans_started (snd (ServerValidationUnaryInterceptor ctx req info handler)) =
     (case ValidateAll req of
        Some (Some err) \<Rightarrow> []
      | _ \<Rightarrow> spans_started (snd (handler ctx req)))"
  by (simp add: validation_cases spans_started_def split: option.split)

lemma spans_finished_validation:
  "spans_finished (snd (ServerValidationUnaryInterceptor ctx req info handler)) =
     (case ValidateAll req of
        Some (Some err) \<Rightarrow> []
      | _ \<Rightarrow> spans_finished (snd (handler ctx req)))"
  by (simp add: validation_cases spans_finished_def split: option.split)

lemma demo_server_span:
  "StartSpan demo_tracer (FullMethod SayHello_info)
     [RPCServerOption (TraceMetadata context_Background), Tag ''component'' ''gRPC'']
   = demo_server_span"
  "server_span demo_tracer context_Background Greeter_SayHello_FullMethodName = demo_server_span"
  by (simp_all add: StartSpan_def demo_tracer_def SayHello_info_def context_Background_def
        demo_server_span_def server_span_def)



section \<open>The server's hop and the gateway's client hop\<close>

lemma serve_decode_error:
  "serve_SayHello tracer ctx (Inl e) = ((None, Some e), [])"
  "serve_Logout tracer ctx (Inl e) = ((None, Some e), [])"
  "serve_GetUser tracer ctx (Inl e) = ((None, Some e), [])"
  by (simp_all add: serve_SayHello_def serve_Logout_def serve_GetUser_def
        Greeter_SayHello_Handler_def Greeter_Logout_Handler_def Greeter_GetUser_Handler_def)

lemma serve_SayHello_decoded:
  "serve_SayHello tracer ctx (Inr req) =
     (let s = server_span tracer ctx Greeter_SayHello_FullMethodName
      in case ValidateAll req of
           Some (Some err) \<Rightarrow>
             ((None, Some err),
              [RPCSpanStarted s, Infof ''%+v'' req, Errorf ''req validate error %v'' err,
               RPCSpanFinished s True])
         | _ \<Rightarrow>
             ((Some \<lparr>Message = Name (dynamic_value req) @ '' world'', Data = None, Obj = None\<rparr>,
               None),
              [RPCSpanStarted s, Infof ''%+v'' req,
               WithTrace_Infof (ContextWithSpan ctx s) ''register name is %d''
                 (Name (dynamic_value req)),
               RPCSpanFinished s False]))"
  by (simp add: serve_SayHello_def Greeter_SayHello_Handler_def SayHello_server
        server_interceptor_unfold validation_cases Let_def server_span_def
        server_SayHello_def split: option.split)

lemma serve_Logout_decoded:
  "serve_Logout tracer ctx (Inr req) =
     (let s = server_span tracer ctx Greeter_Logout_FullMethodName
      in case ValidateAll req of
           Some (Some err) \<Rightarrow>
             ((None, Some err),
              [RPCSpanStarted s, Infof ''%+v'' req, Errorf ''req validate error %v'' err,
               RPCSpanFinished s True])
         | _ \<Rightarrow>
             ((Some Empty, None),
              [RPCSpanStarted s, Infof ''%+v'' req, RPCSpanFinished s False]))"
  by (simp add: serve_Logout_def Greeter_Logout_Handler_def server_def
        server_interceptor_unfold validation_cases Let_def server_span_def
        server_Logout_def split: option.split)

lemma serve_GetUser_decoded:
  "serve_GetUser tracer ctx (Inr req) =
     (let s = server_span tracer ctx Greeter_GetUser_FullMethodName
      in case ValidateAll req of
           Some (Some err) \<Rightarrow>
             ((None, Some err),
              [RPCSpanStarted s, Infof ''%+v'' req, Errorf ''req validate error %v'' err,
               RPCSpanFinished s True])
         | _ \<Rightarrow>
             ((None, Some (GRPCStatus Unimplemented ''method GetUser not implemented'')),
              [RPCSpanStarted s, Infof ''%+v'' req, RPCSpanFinished s True]))"
  by (simp add: serve_GetUser_def Greeter_GetUser_Handler_def GetUser_server
        server_interceptor_unfold validation_cases Let_def server_span_def
        split: option.split)

lemma serve_stages:
  "validations (snd (serve_SayHello tracer ctx dec1)) = (case dec1 of Inl e \<Rightarrow> [] | Inr q \<Rightarrow> [q])"
  "spans_started (snd (serve_SayHello tracer ctx dec1)) =
     (case dec1 of Inl e \<Rightarrow> [] | Inr q \<Rightarrow> [server_span tracer ctx Greeter_SayHello_FullMethodName])"
  "spans_finished (snd (serve_SayHello tracer ctx dec1)) =
     (case dec1 of Inl e \<Rightarrow> [] | Inr q \<Rightarrow> [server_span tracer ctx Greeter_SayHello_FullMethodName])"
  "validations (snd (serve_Logout tracer ctx dec2)) = (case dec2 of Inl e \<Rightarrow> [] | Inr q \<Rightarrow> [q])"
  "spans_started (snd (serve_Logout tracer ctx dec2)) =
     (case dec2 of Inl e \<Rightarrow> [] | Inr q \<Rightarrow> [server_span tracer ctx Greeter_Logout_FullMethodName])"
  "spans_finished (snd (serve_Logout tracer ctx dec2)) =
     (case dec2 of Inl e \<Rightarrow> [] | Inr q \<Rightarrow> [server_span tracer ctx Greeter_Logout_FullMethodName])"
  "validations (snd (serve_GetUser tracer ctx dec3)) = (case dec3 of Inl e \<Rightarrow> [] | Inr q \<Rightarrow> [q])"
  "spans_started (snd (serve_GetUser tracer ctx dec3)) =
     (case dec3 of Inl e \<Rightarrow> [] | Inr q \<Rightarrow> [server_span tracer ctx Greeter_GetUser_FullMethodName])"
  "spans_finished (snd (serve_GetUser tracer ctx dec3)) =
     (case dec3 of Inl e \<Rightarrow> [] | Inr q \<Rightarrow> [server_span tracer ctx Greeter_GetUser_FullMethodName])"
  by (simp_all add: serve_decode_error serve_SayHello_decoded serve_Logout_decoded
        serve_GetUser_decoded Let_def validations_def spans_started_def spans_finished_def
        split: sum.split option.split)

lemma client_hop_events:
  "snd (ClientConn_Invoke (dial_interceptor tracer) (loopback serve) ctx method args reply) =
     RPCSpanStarted (client_span tracer ctx method)
     # snd (serve (hop_Ctx tracer ctx method) (Inr args))
     @ [RPCSpanFinished (client_span tracer ctx method)
          (snd (fst (ClientConn_Invoke (dial_interceptor tracer) (loopback serve) ctx method args reply))
             \<noteq> None)]"
  by (simp add: ClientConn_Invoke_def dial_interceptor_def opentracing_UnaryClientInterceptor_def
        loopback_def Let_def ContextWithSpan_def client_span_def hop_Ctx_def
        split: prod.split option.split)

lemma greeterClient_events:
  "snd (greeterClient_SayHello cc1 ctx in1) =
     snd (cc1 ctx Greeter_SayHello_FullMethodName in1 \<lparr>Message = [], Data = None, Obj = None\<rparr>)"
  "snd (greeterClient_Logout cc2 ctx in2) = snd (cc2 ctx Greeter_Logout_FullMethodName in2 Empty)"
  "snd (greeterClient_GetUser cc3 ctx in3) =
     snd (cc3 ctx Greeter_GetUser_FullMethodName in3
            \<lparr>UserRes.Id = 0, UserRes.Name = [], UserRes.Email = [], UserRes.Phone = []\<rparr>)"
  by (simp_all add: greeterClient_SayHello_def greeterClient_Logout_def greeterClient_GetUser_def
        split: prod.split)

lemma greeterClient_error:
  "snd (fst (greeterClient_SayHello cc1 ctx in1)) =
     snd (fst (cc1 ctx Greeter_SayHello_FullMethodName in1 \<lparr>Message = [], Data = None, Obj = None\<rparr>))"
  "snd (fst (greeterClient_Logout cc2 ctx in2)) =
     snd (fst (cc2 ctx Greeter_Logout_FullMethodName in2 Empty))"
  "snd (fst (greeterClient_GetUser cc3 ctx in3)) =
     snd (fst (cc3 ctx Greeter_GetUser_FullMethodName in3
            \<lparr>UserRes.Id = 0, UserRes.Name = [], UserRes.Email = [], UserRes.Phone = []\<rparr>))"
  by (auto simp add: greeterClient_SayHello_def greeterClient_Logout_def greeterClient_GetUser_def
        split: prod.split)

lemma gateway_events:
  "snd (gateway_SayHello tracer ctx req1) =
     RPCSpanStarted (client_span tracer ctx Greeter_SayHello_FullMethodName)
     # snd (serve_SayHello tracer (hop_Ctx tracer ctx Greeter_SayHello_FullMethodName) (Inr req1))
     @ [RPCSpanFinished (client_span tracer ctx Greeter_SayHello_FullMethodName)
          (snd (fst (gateway_SayHello tracer ctx req1)) \<noteq> None)]"
  "snd (gateway_Logout tracer ctx req2) =
     RPCSpanStarted (client_span tracer ctx Greeter_Logout_FullMethodName)
     # snd (serve_Logout tracer (hop_Ctx tracer ctx Greeter_Logout_FullMethodName) (Inr req2))
     @ [RPCSpanFinished (client_span tracer ctx Greeter_Logout_FullMethodName)
          (snd (fst (gateway_Logout tracer ctx req2)) \<noteq> None)]"
  "snd (gateway_GetUser tracer ctx req3) =
     RPCSpanStarted (client_span tracer ctx Greeter_GetUser_FullMethodName)
     # snd (serve_GetUser tracer (hop_Ctx tracer ctx Greeter_GetUser_FullMethodName) (Inr req3))
     @ [RPCSpanFinished (client_span tracer ctx Greeter_GetUser_FullMethodName)
          (snd (fst (gateway_GetUser tracer ctx req3)) \<noteq> None)]"
  unfolding gateway_SayHello_def gateway_Logout_def gateway_GetUser_def
    greeterClient_events greeterClient_error
  by (rule client_hop_events)+

lemma map_filter_Cons_snoc:
  "List.map_filter f (x # xs @ [y]) =
     (case f x of None \<Rightarrow> [] | Some a \<Rightarrow> [a]) @ List.map_filter f xs
     @ (case f y of None \<Rightarrow> [] | Some b \<Rightarrow> [b])"
  by (simp add: map_filter_append split: option.split)

lemma gateway_stages:
  "validations (snd (gateway_SayHello tracer ctx req1)) = [req1]"
  "spans_started (snd (gateway_SayHello tracer ctx req1)) =
     [client_span tracer ctx Greeter_SayHello_FullMethodName,
      server_span tracer (hop_Ctx tracer ctx Greeter_SayHello_FullMethodName)
        Greeter_SayHello_FullMethodName]"
  "spans_finished (snd (gateway_SayHello tracer ctx req1)) =
     [server_span tracer (hop_Ctx tracer ctx Greeter_SayHello_FullMethodName)
        Greeter_SayHello_FullMethodName,
      client_span tracer ctx Greeter_SayHello_FullMethodName]"
  "validations (snd (gateway_Logout tracer ctx req2)) = [req2]"
  "spans_started (snd (gateway_Logout tracer ctx req2)) =
     [client_span tracer ctx Greeter_Logout_FullMethodName,
      server_span tracer (hop_Ctx tracer ctx Greeter_Logout_FullMethodName)
        Greeter_Logout_FullMethodName]"
  "spans_finished (snd (gateway_Logout tracer ctx req2)) =
     [server_span tracer (hop_Ctx tracer ctx Greeter_Logout_FullMethodName)
        Greeter_Logout_FullMethodName,
      client_span tracer ctx Greeter_Logout_FullMethodName]"
  "validations (snd (gateway_GetUser tracer ctx req3)) = [req3]"
  "spans_started (snd (gateway_GetUser tracer ctx req3)) =
     [client_span tracer ctx Greeter_GetUser_FullMethodName,
      server_span tracer (hop_Ctx tracer ctx Greeter_GetUser_FullMethodName)
        Greeter_GetUser_FullMethodName]"
  "spans_finished (snd (gateway_GetUser tracer ctx req3)) =
     [server_span tracer (hop_Ctx tracer ctx Greeter_GetUser_FullMethodName)
        Greeter_GetUser_FullMethodName,
      client_span tracer ctx Greeter_GetUser_FullMethodName]"
  unfolding gateway_events validations_def spans_started_def spans_finished_def
    map_filter_Cons_snoc
    serve_stages [unfolded validations_def spans_started_def spans_finished_def]
  by simp_all

lemma serve_SayHello_reply:
  "fst (serve_SayHello tracer ctx (Inr (HelloRequest_Any m))) =
     (case HelloRequest_ValidateAll m of
        None \<Rightarrow> (Some \<lparr>Message = Name m @ '' world'', Data = None, Obj = None\<rparr>, None)
      | Some err \<Rightarrow> (None, Some err))"
  by (simp add: serve_SayHello_decoded Let_def HelloRequest_Any_def split: option.split)

lemma gateway_SayHello_reply:
  "fst (gateway_SayHello tracer ctx (HelloRequest_Any m)) =
     (case HelloRequest_ValidateAll m of
        None \<Rightarrow> (Some \<lparr>Message = Name m @ '' world'', Data = None, Obj = None\<rparr>, None)
      | Some err \<Rightarrow> (None, Some (status_Convert err)))"
  by (simp add: gateway_SayHello_def greeterClient_SayHello_def ClientConn_Invoke_def
        dial_interceptor_def opentracing_UnaryClientInterceptor_def loopback_def
        serve_SayHello_decoded Let_def HelloRequest_Any_def split: option.split)

lemma gateway_http_SayHello_response:
  "fst (gateway_http_SayHello tracer ctx (StructValue [(''name'', StringValue n)])) =
     (case HelloRequest_ValidateAll \<lparr>Name = n\<rparr> of
        None \<Rightarrow>
          (200, StructValue [(''message'', StringValue (n @ '' world'')),
                             (''data'', NullValue), (''obj'', NullValue)])
      | Some err \<Rightarrow> HTTPError (status_Convert err))"
proof (cases "HelloRequest_ValidateAll \<lparr>Name = n\<rparr>")
  case None
  then show ?thesis
    using gateway_SayHello_reply [of tracer ctx "\<lparr>Name = n\<rparr>"]
    by (cases "gateway_SayHello tracer ctx (HelloRequest_Any \<lparr>Name = n\<rparr>)")
       (simp add: gateway_http_SayHello_def decode_HelloRequest_def encode_HelloReply_def)
next
  case (Some err)
  then show ?thesis
    using gateway_SayHello_reply [of tracer ctx "\<lparr>Name = n\<rparr>"]
    by (cases "gateway_SayHello tracer ctx (HelloRequest_Any \<lparr>Name = n\<rparr>)")
       (simp add: gateway_http_SayHello_def decode_HelloRequest_def)
qed

lemma HTTPError_validation:
  "HelloRequest_ValidateAll m = Some err \<Longrightarrow>
   HTTPError (status_Convert err) =
     (500, StructValue [(''code'', NumberValue 2), (''message'', StringValue (Error err)),
                        (''details'', ListValue [])])"
  by (auto simp add: HelloRequest_ValidateAll_def Let_def status_Convert_def HTTPError_def
        split: if_splits)

text \<open>
  C7, as the code has it. Every call whose request decodes passes through the server's
  chain, the trace stage around the validation stage, exactly once, at the server's
  inbound hop: for each of the three methods the run enters the validation stage once and
  starts one span. A call whose request fails to decode returns before the chain. A call
  that comes from the gateway passes in addition through the client-side trace stage
  alone at the gateway's outbound hop: its run is the client's span around the run of the
  server's hop, so it starts and finishes two spans and enters the validation stage once.
\<close>

theorem C7_chain_once_at_server_hop:
  "validations (snd (serve_SayHello tracer ctx dec1)) = (case dec1 of Inl e \<Rightarrow> [] | Inr q \<Rightarrow> [q])
   \<and> spans_started (snd (serve_SayHello tracer ctx dec1)) =
       (case dec1 of Inl e \<Rightarrow> [] | Inr q \<Rightarrow> [server_span tracer ctx Greeter_SayHello_FullMethodName])
   \<and> validations (snd (serve_Logout tracer ctx dec2)) = (case dec2 of Inl e \<Rightarrow> [] | Inr q \<Rightarrow> [q])
   \<and> spans_started (snd (serve_Logout tracer ctx dec2)) =
       (case dec2 of Inl e \<Rightarrow> [] | Inr q \<Rightarrow> [server_span tracer ctx Greeter_Logout_FullMethodName])
   \<and> validations (snd (serve_GetUser tracer ctx dec3)) = (case dec3 of Inl e \<Rightarrow> [] | Inr q \<Rightarrow> [q])
   \<and> spans_started (snd (serve_GetUser tracer ctx dec3)) =
       (case dec3 of Inl e \<Rightarrow> [] | Inr q \<Rightarrow> [server_span tracer ctx Greeter_GetUser_FullMethodName])
   \<and> snd (gateway_SayHello tracer ctx req1) =
       RPCSpanStarted (client_span tracer ctx Greeter_SayHello_FullMethodName)
       # snd (serve_SayHello tracer (hop_Ctx tracer ctx Greeter_SayHello_FullMethodName) (Inr req1))
       @ [RPCSpanFinished (client_span tracer ctx Greeter_SayHello_FullMethodName)
            (snd (fst (gateway_SayHello tracer ctx req1)) \<noteq> None)]
   \<and> validations (snd (gateway_SayHello tracer ctx req1)) = [req1]
   \<and> spans_started (snd (gateway_SayHello tracer ctx req1)) =
       [client_span tracer ctx Greeter_SayHello_FullMethodName,
        server_span tracer (hop_Ctx tracer ctx Greeter_SayHello_FullMethodName)
          Greeter_SayHello_FullMethodName]
   \<and> snd (gateway_Logout tracer ctx req2) =
       RPCSpanStarted (client_span tracer ctx Greeter_Logout_FullMethodName)
       # snd (serve_Logout tracer (hop_Ctx tracer ctx Greeter_Logout_FullMethodName) (Inr req2))
       @ [RPCSpanFinished (client_span tracer ctx Greeter_Logout_FullMethodName)
            (snd (fst (gateway_Logout tracer ctx req2)) \<noteq> None)]
   \<and> validations (snd (gateway_Logout tracer ctx req2)) = [req2]
   \<and> spans_started (snd (gateway_Logout tracer ctx req2)) =
       [client_span tracer ctx Greeter_Logout_FullMethodName,
        server_span tracer (hop_Ctx tracer ctx Greeter_Logout_FullMethodName)
          Greeter_Logout_FullMethodName]
   \<and> snd (gateway_GetUser tracer ctx req3) =
       RPCSpanStarted (client_span tracer ctx Greeter_GetUser_FullMethodName)
       # snd (serve_GetUser tracer (hop_Ctx tracer ctx Greeter_GetUser_FullMethodName) (Inr req3))
       @ [RPCSpanFinished (client_span tracer ctx Greeter_GetUser_FullMethodName)
            (snd (fst (gateway_GetUser tracer ctx req3)) \<noteq> None)]
   \<and> validations (snd (gateway_GetUser tracer ctx req3)) = [req3]
   \<and> spans_started (snd (gateway_GetUser tracer ctx req3)) =
       [client_span tracer ctx Greeter_GetUser_FullMethodName,
        server_span tracer (hop_Ctx tracer ctx Greeter_GetUser_FullMethodName)
          Greeter_GetUser_FullMethodName]"
  by (intro conjI) (rule serve_stages gateway_stages gateway_events)+

text \<open>
  The claim as stated fails: a gateway-originated call with a request that passes
  validation enters the validation stage once, not twice, while two spans are started.
\<close>

theorem C7_validation_once_counterexample:
  "validations (snd (gateway_SayHello demo_tracer context_Background lovelace_request)) =
     [lovelace_request]
   \<and> length (validations (snd (gateway_SayHello demo_tracer context_Background lovelace_request)))
       \<noteq> 2
   \<and> length (spans_started (snd (gateway_SayHello demo_tracer context_Background lovelace_request)))
       = 2"
  by (simp add: gateway_stages)

section \<open>SayHello on both paths\<close>

text \<open>
  C6, as the code has it. The method body of \<open>SayHello\<close> returns, for every name, a reply
  whose message is the name followed by \<open>'' world''\<close>, with no structured payload and no
  error; for the name Ada that is \<open>''Ada world''\<close>. On the native path and on the gateway
  path the call reaches the method body only through the validation stage. A name that
  passes the rules of \<open>HelloRequest\<close> (6 to 16 characters, letters, digits and underscores
  only) gets this same message on both paths; any other name gets the validation error and
  no reply on both paths.
\<close>

theorem C6_SayHello_message:
  "fst (SayHello server ctx \<lparr>Name = n\<rparr>) =
     (Some \<lparr>Message = n @ '' world'', Data = None, Obj = None\<rparr>, None)
   \<and> fst (SayHello server ctx \<lparr>Name = ''Ada''\<rparr>) =
     (Some \<lparr>Message = ''Ada world'', Data = None, Obj = None\<rparr>, None)
   \<and> fst (serve_SayHello tracer ctx (Inr (HelloRequest_Any \<lparr>Name = n\<rparr>))) =
       (case HelloRequest_ValidateAll \<lparr>Name = n\<rparr> of
          None \<Rightarrow> (Some \<lparr>Message = n @ '' world'', Data = None, Obj = None\<rparr>, None)
        | Some err \<Rightarrow> (None, Some err))
   \<and> fst (gateway_http_SayHello tracer ctx' (StructValue [(''name'', StringValue n)])) =
       (case HelloRequest_ValidateAll \<lparr>Name = n\<rparr> of
          None \<Rightarrow>
            (200, StructValue [(''message'', StringValue (n @ '' world'')),
                               (''data'', NullValue), (''obj'', NullValue)])
        | Some err \<Rightarrow>
            (500, StructValue [(''code'', NumberValue 2), (''message'', StringValue (Error err)),
                               (''details'', ListValue [])]))
   \<and> (HelloRequest_ValidateAll \<lparr>Name = n\<rparr> = None \<longleftrightarrow>
        6 \<le> utf8_RuneCountInString n \<and> utf8_RuneCountInString n \<le> 16
        \<and> HelloRequest_Name_Pattern_MatchString n)"
proof (intro conjI)
  show "fst (SayHello server ctx \<lparr>Name = n\<rparr>) =
          (Some \<lparr>Message = n @ '' world'', Data = None, Obj = None\<rparr>, None)"
    by (simp add: SayHello_server server_SayHello_def)
  show "fst (SayHello server ctx \<lparr>Name = ''Ada''\<rparr>) =
          (Some \<lparr>Message = ''Ada world'', Data = None, Obj = None\<rparr>, None)"
    by (simp add: SayHello_server server_SayHello_def)
  show "fst (serve_SayHello tracer ctx (Inr (HelloRequest_Any \<lparr>Name = n\<rparr>))) =
          (case HelloRequest_ValidateAll \<lparr>Name = n\<rparr> of
             None \<Rightarrow> (Some \<lparr>Message = n @ '' world'', Data = None, Obj = None\<rparr>, None)
           | Some err \<Rightarrow> (None, Some err))"
    by (simp add: serve_SayHello_reply split: option.split)
  show "fst (gateway_http_SayHello tracer ctx' (StructValue [(''name'', StringValue n)])) =
          (case HelloRequest_ValidateAll \<lparr>Name = n\<rparr> of
             None \<Rightarrow>
               (200, StructValue [(''message'', StringValue (n @ '' world'')),
                                  (''data'', NullValue), (''obj'', NullValue)])
           | Some err \<Rightarrow>
               (500, StructValue [(''code'', NumberValue 2), (''message'', StringValue (Error err)),
                                  (''details'', ListValue [])]))"
    by (cases "HelloRequest_ValidateAll \<lparr>Name = n\<rparr>")
       (simp_all add: gateway_http_SayHello_response HTTPError_validation)
  show "HelloRequest_ValidateAll \<lparr>Name = n\<rparr> = None \<longleftrightarrow>
          6 \<le> utf8_RuneCountInString n \<and> utf8_RuneCountInString n \<le> 16
          \<and> HelloRequest_Name_Pattern_MatchString n"
    by (auto simp add: HelloRequest_ValidateAll_def Let_def)
qed

theorem C6_SayHello_message_witness:
  "fst (serve_SayHello demo_tracer context_Background (Inr lovelace_request)) =
     (Some \<lparr>Message = ''Ada_Lovelace world'', Data = None, Obj = None\<rparr>, None)
   \<and> fst (gateway_http_SayHello demo_tracer context_Background
            (StructValue [(''name'', StringValue ''Ada_Lovelace'')])) =
     (200, StructValue [(''message'', StringValue ''Ada_Lovelace world''),
                        (''data'', NullValue), (''obj'', NullValue)])"
proof -
  have v: "HelloRequest_ValidateAll \<lparr>Name = ''Ada_Lovelace''\<rparr> = None"
    using ValidateAll_lovelace_request by (simp add: lovelace_request_def HelloRequest_Any_def)
  from C6_SayHello_message [where n = "''Ada_Lovelace''" and tracer = demo_tracer
         and ctx = context_Background and ctx' = context_Background]
  show ?thesis
    by (simp add: v lovelace_request_def)
qed

text \<open>
  The claim as stated fails: the name Ada has three characters, fewer than the six the
  rule on \<open>HelloRequest.name\<close> asks for, so on the native path the call ends with the
  validation error and no reply, and on the gateway path with an error response; neither
  path delivers \<open>''Ada world''\<close>.
\<close>

theorem C6_Ada_rejected_counterexample:
  "fst (serve_SayHello demo_tracer context_Background (Inr ada_request)) = (None, Some ada_rejection)
   \<and> fst (serve_SayHello demo_tracer context_Background (Inr ada_request)) \<noteq>
       (Some \<lparr>Message = ''Ada world'', Data = None, Obj = None\<rparr>, None)
   \<and> fst (gateway_http_SayHello demo_tracer context_Background
            (StructValue [(''name'', StringValue ''Ada'')])) =
       (500, StructValue [(''code'', NumberValue 2), (''message'', StringValue (Error ada_rejection)),
                          (''details'', ListValue [])])"
proof -
  have v: "HelloRequest_ValidateAll \<lparr>Name = ''Ada''\<rparr> = Some ada_rejection"
    using ValidateAll_ada_request by (simp add: ada_request_def HelloRequest_Any_def)
  show ?thesis
    by (simp add: ada_request_def serve_SayHello_reply gateway_http_SayHello_response v
          HTTPError_validation [OF v])
qed

section \<open>The gateway branch of the front door\<close>

lemma Header_Get_Set: "Header_Get (Header_Set w k v) k = v"
  by (simp add: Header_Get_def Header_Set_def)

lemma run_gateway_span:
  "\<not> native_traffic r \<Longrightarrow> Extract tracer (Header r) = (parent, err) \<Longrightarrow>
   extraction_accepted err \<Longrightarrow>
   grpcHandlerFunc tracer sprint grpcServer otherHandler w r =
     (let s = StartSpan tracer ''ServeHTTP'' [RPCServerOption parent, grpcGatewayTag];
          r' = r\<lparr>Context := ContextWithSpan (Context r) s\<rparr>;
          w' = (case SpanContext_of s of
                  JaegerSpanContext t \<Rightarrow> Header_Set w TraceContextHeaderName (sprint t)
                | ForeignSpanContext \<Rightarrow> w)
      in ([ZapInfo ''match http web call'', SpanStarted s, OtherServeHTTP w' r', SpanFinished s],
          otherHandler w' r'))"
  by (auto simp add: grpcHandlerFunc_def native_traffic_def extraction_accepted_def Let_def)

lemma run_gateway_nospan:
  "\<not> native_traffic r \<Longrightarrow> Extract tracer (Header r) = (parent, err) \<Longrightarrow>
   \<not> extraction_accepted err \<Longrightarrow>
   grpcHandlerFunc tracer sprint grpcServer otherHandler w r =
     ([ZapInfo ''match http web call'', OtherServeHTTP w r], otherHandler w r)"
  by (auto simp add: grpcHandlerFunc_def native_traffic_def extraction_accepted_def)

lemma gateway_request_served:
  assumes "\<not> native_traffic r"
  shows "\<exists>w' r'. gateway_served (fst (grpcHandlerFunc tracer sprint grpcServer otherHandler w r)) =
                    [(w', r')]
                \<and> snd (grpcHandlerFunc tracer sprint grpcServer otherHandler w r) = otherHandler w' r'"
proof -
  obtain parent err where ex: "Extract tracer (Header r) = (parent, err)"
    by (cases "Extract tracer (Header r)")
  show ?thesis
  proof (cases "extraction_accepted err")
    case True
    show ?thesis
      unfolding run_gateway_span [OF assms ex True]
      by (simp add: gateway_served_def Let_def)
  next
    case False
    show ?thesis
      unfolding run_gateway_nospan [OF assms ex False]
      by (simp add: gateway_served_def)
  qed
qed

lemma demo_gateway_requests:
  "\<not> native_traffic json_request" "\<not> native_traffic corrupted_trace_request"
  "Extract demo_tracer (Header json_request) = (None, Some ErrSpanContextNotFound)"
  "Extract demo_tracer (Header corrupted_trace_request) = (None, Some ErrSpanContextCorrupted)"
  by (simp_all add: native_traffic_def json_request_def corrupted_trace_request_def demo_tracer_def)

text \<open>
  C5, as the code has it. For every gateway-branch request whose trace extraction fails,
  the failure is not fatal: the request is handed to the gateway handler exactly once and
  the front door ends as that handler ends. When the error is \<open>ErrSpanContextNotFound\<close>
  (no parent context in the headers) the front door starts a span from the parent the
  tracer returned, a root span when that is nil. For every other extraction error (an
  unparsable parent context, say) it starts no span and hands on the response headers
  and the request as they came.
\<close>

theorem C5_extraction_failure_is_not_fatal:
  assumes "\<not> native_traffic r" and "Extract tracer (Header r) = (parent, Some e)"
  shows "routes (fst (grpcHandlerFunc tracer sprint grpcServer otherHandler w r)) = [Gateway]
    \<and> (\<exists>w' r'. gateway_served (fst (grpcHandlerFunc tracer sprint grpcServer otherHandler w r)) =
                   [(w', r')]
               \<and> snd (grpcHandlerFunc tracer sprint grpcServer otherHandler w r) = otherHandler w' r')
    \<and> (e = ErrSpanContextNotFound \<longrightarrow>
         front_spans_started (fst (grpcHandlerFunc tracer sprint grpcServer otherHandler w r)) =
           [StartSpan tracer ''ServeHTTP'' [RPCServerOption parent, grpcGatewayTag]])
    \<and> (e \<noteq> ErrSpanContextNotFound \<longrightarrow>
         front_spans_started (fst (grpcHandlerFunc tracer sprint grpcServer otherHandler w r)) = []
         \<and> gateway_served (fst (grpcHandlerFunc tracer sprint grpcServer otherHandler w r)) =
             [(w, r)])"
proof (intro conjI impI)
  show "routes (fst (grpcHandlerFunc tracer sprint grpcServer otherHandler w r)) = [Gateway]"
    using assms(1) by (simp add: routes_grpcHandlerFunc native_traffic_def)
  show "\<exists>w' r'. gateway_served (fst (grpcHandlerFunc tracer sprint grpcServer otherHandler w r)) =
                  [(w', r')]
              \<and> snd (grpcHandlerFunc tracer sprint grpcServer otherHandler w r) = otherHandler w' r'"
    using assms(1) by (rule gateway_request_served)
next
  assume "e = ErrSpanContextNotFound"
  then have "extraction_accepted (Some e)"
    by (simp add: extraction_accepted_def)
  from run_gateway_span [OF assms this]
  show "front_spans_started (fst (grpcHandlerFunc tracer sprint grpcServer otherHandler w r)) =
          [StartSpan tracer ''ServeHTTP'' [RPCServerOption parent, grpcGatewayTag]]"
    by (simp add: front_spans_started_def Let_def)
next
  assume "e \<noteq> ErrSpanContextNotFound"
  then have no: "\<not> extraction_accepted (Some e)"
    by (simp add: extraction_accepted_def)
  show "front_spans_started (fst (grpcHandlerFunc tracer sprint grpcServer otherHandler w r)) = []"
    by (simp add: run_gateway_nospan [OF assms no] front_spans_started_def)
  show "gateway_served (fst (grpcHandlerFunc tracer sprint grpcServer otherHandler w r)) = [(w, r)]"
    by (simp add: run_gateway_nospan [OF assms no] gateway_served_def)
qed

theorem C5_extraction_failure_is_not_fatal_witness:
  "front_spans_started (fst (grpcHandlerFunc demo_tracer demo_sprint always_returns always_returns
                               no_headers json_request)) = [demo_front_span]
   \<and> routes (fst (grpcHandlerFunc demo_tracer demo_sprint always_returns always_returns
                    no_headers corrupted_trace_request)) = [Gateway]
   \<and> gateway_served (fst (grpcHandlerFunc demo_tracer demo_sprint always_returns always_returns
                            no_headers corrupted_trace_request)) =
       [(no_headers, corrupted_trace_request)]"
proof -
  have s: "StartSpan demo_tracer ''ServeHTTP'' [RPCServerOption None, grpcGatewayTag] = demo_front_span"
    by (simp add: StartSpan_def demo_tracer_def grpcGatewayTag_def demo_front_span_def)
  from C5_extraction_failure_is_not_fatal [OF demo_gateway_requests(1) demo_gateway_requests(3),
         where sprint = demo_sprint and grpcServer = always_returns
           and otherHandler = always_returns and w = no_headers]
       C5_extraction_failure_is_not_fatal [OF demo_gateway_requests(2) demo_gateway_requests(4),
         where sprint = demo_sprint and grpcServer = always_returns
           and otherHandler = always_returns and w = no_headers]
  show ?thesis
    unfolding s by simp
qed

text \<open>
  The claim as stated fails: for a gateway-branch request whose parent context is present
  but unparsable, the tracer's error is not \<open>ErrSpanContextNotFound\<close> and the front
  door starts no span at all, root or other; the request is still served.
\<close>

theorem C5_no_root_span_counterexample:
  "Extract demo_tracer (Header corrupted_trace_request) = (None, Some ErrSpanContextCorrupted)
   \<and> front_spans_started (fst (grpcHandlerFunc demo_tracer demo_sprint always_returns
                                  always_returns no_headers corrupted_trace_request)) = []
   \<and> routes (fst (grpcHandlerFunc demo_tracer demo_sprint always_returns
                     always_returns no_headers corrupted_trace_request)) = [Gateway]"
  by (simp add: demo_gateway_requests
        run_gateway_nospan [OF demo_gateway_requests(2) demo_gateway_requests(4)]
        extraction_accepted_def front_spans_started_def routes_def)

text \<open>
  C9. In the gateway branch, with the tracer \<open>main\<close> installs (Jaeger's, whose span
  contexts are of type \<open>jaeger.SpanContext\<close>): when the front door started a span, the
  response headers it hands to the gateway handler carry the trace-context header with
  the rendering of that span's trace ID as its value; when it started no span, the
  response headers are handed on as they came, with no header written.
\<close>

theorem C9_trace_header_iff_span_started:
  assumes "\<not> native_traffic r"
  shows "(front_spans_started (fst (grpcHandlerFunc tracer sprint grpcServer otherHandler w r)) = [s]
            \<and> SpanContext_of s = JaegerSpanContext t \<longrightarrow>
          (\<exists>w' r'. gateway_served (fst (grpcHandlerFunc tracer sprint grpcServer otherHandler w r)) =
                      [(w', r')]
                  \<and> w' = Header_Set w TraceContextHeaderName (sprint t)
                  \<and> Header_Get w' TraceContextHeaderName = sprint t
                  \<and> ActiveSpan (Context r') = Some s))
       \<and> (front_spans_started (fst (grpcHandlerFunc tracer sprint grpcServer otherHandler w r)) = []
            \<longrightarrow> gateway_served (fst (grpcHandlerFunc tracer sprint grpcServer otherHandler w r)) =
                  [(w, r)])"
proof -
  obtain parent err where ex: "Extract tracer (Header r) = (parent, err)"
    by (cases "Extract tracer (Header r)")
  show ?thesis
  proof (cases "extraction_accepted err")
    case True
    show ?thesis
      unfolding run_gateway_span [OF assms ex True]
      by (auto simp add: front_spans_started_def gateway_served_def Let_def Header_Get_Set
            ContextWithSpan_def)
  next
    case False
    show ?thesis
      unfolding run_gateway_nospan [OF assms ex False]
      by (simp add: front_spans_started_def gateway_served_def)
  qed
qed

theorem C9_trace_header_iff_span_started_witness:
  "gateway_served (fst (grpcHandlerFunc demo_tracer demo_sprint always_returns always_returns
                          no_headers json_request)) =
     [(no_headers(''Uber-Trace-Id'' \<mapsto> [''0000000000000007'']),
       json_request\<lparr>Context := ContextWithSpan context_Background demo_front_span\<rparr>)]
   \<and> gateway_served (fst (grpcHandlerFunc demo_tracer demo_sprint always_returns always_returns
                            no_headers corrupted_trace_request)) =
     [(no_headers, corrupted_trace_request)]"
proof -
  have s: "StartSpan demo_tracer ''ServeHTTP'' [RPCServerOption None, grpcGatewayTag] = demo_front_span"
    by (simp add: StartSpan_def demo_tracer_def grpcGatewayTag_def demo_front_span_def)
  have a: "front_spans_started (fst (grpcHandlerFunc demo_tracer demo_sprint always_returns
                                       always_returns no_headers json_request)) = [demo_front_span]"
    using run_gateway_span [OF demo_gateway_requests(1) demo_gateway_requests(3),
            where sprint = demo_sprint and grpcServer = always_returns
              and otherHandler = always_returns and w = no_headers]
    by (simp add: extraction_accepted_def s front_spans_started_def Let_def)
  have b: "front_spans_started (fst (grpcHandlerFunc demo_tracer demo_sprint always_returns
                                       always_returns no_headers corrupted_trace_request)) = []"
    by (simp add: run_gateway_nospan [OF demo_gateway_requests(2) demo_gateway_requests(4)]
          extraction_accepted_def front_spans_started_def)
  have c: "SpanContext_of demo_front_span = JaegerSpanContext 7"
    by (simp add: demo_front_span_def)
  have k: "Header_Set no_headers TraceContextHeaderName (demo_sprint 7) =
             no_headers(''Uber-Trace-Id'' \<mapsto> [''0000000000000007''])"
  proof -
    have "CanonicalMIMEHeaderKey TraceContextHeaderName = ''Uber-Trace-Id''"
      by code_simp
    then show ?thesis
      by (simp add: Header_Set_def demo_sprint_def)
  qed
  have g: "gateway_served (fst (grpcHandlerFunc demo_tracer demo_sprint always_returns
                                  always_returns no_headers json_request)) =
             [(Header_Set no_headers TraceContextHeaderName (demo_sprint 7),
               json_request\<lparr>Context := ContextWithSpan context_Background demo_front_span\<rparr>)]"
    using run_gateway_span [OF demo_gateway_requests(1) demo_gateway_requests(3),
            where sprint = demo_sprint and grpcServer = always_returns
              and otherHandler = always_returns and w = no_headers]
    by (simp add: extraction_accepted_def s c gateway_served_def Let_def json_request_def)
  from C9_trace_header_iff_span_started [OF demo_gateway_requests(1),
         where tracer = demo_tracer and sprint = demo_sprint and grpcServer = always_returns
           and otherHandler = always_returns and w = no_headers and s = demo_front_span and t = 7]
       C9_trace_header_iff_span_started [OF demo_gateway_requests(2),
         where tracer = demo_tracer and sprint = demo_sprint and grpcServer = always_returns
           and otherHandler = always_returns and w = no_headers and s = demo_front_span and t = 7]
       a b c g k
  show ?thesis
    by simp
qed

section \<open>Spans on every exit\<close>

lemma front_spans_exact:
  "front_spans_started (fst (grpcHandlerFunc tracer sprint grpcServer otherHandler w r)) =
     (if native_traffic r then []
      else if extraction_accepted (snd (Extract tracer (Header r)))
      then [StartSpan tracer ''ServeHTTP''
              [RPCServerOption (fst (Extract tracer (Header r))), grpcGatewayTag]]
      else [])"
  "front_spans_finished (fst (grpcHandlerFunc tracer sprint grpcServer otherHandler w r)) =
     front_spans_started (fst (grpcHandlerFunc tracer sprint grpcServer otherHandler w r))"
  by (simp_all add: grpcHandlerFunc_def native_traffic_def extraction_accepted_def
        front_spans_started_def front_spans_finished_def Let_def split: prod.split)

lemma chain_spans:
  "spans_started (snd (server_interceptor tracer ctx req info handler)) =
     server_span tracer ctx (FullMethod info)
     # (case ValidateAll req of
          Some (Some err) \<Rightarrow> []
        | _ \<Rightarrow> spans_started
                 (snd (handler (ContextWithSpan ctx (server_span tracer ctx (FullMethod info))) req)))"
  "spans_finished (snd (server_interceptor tracer ctx req info handler)) =
     (case ValidateAll req of
        Some (Some err) \<Rightarrow> []
      | _ \<Rightarrow> spans_finished
               (snd (handler (ContextWithSpan ctx (server_span tracer ctx (FullMethod info))) req)))
     @ [server_span tracer ctx (FullMethod info)]"
  by (simp_all add: server_interceptor_unfold Let_def server_span_def map_filter_append
        spans_started_def spans_finished_def validation_cases split: option.split)

text \<open>
  C4, as the code has it. A call whose request decodes starts exactly one span at the
  server's trace stage and finishes exactly that span once, whether the validation stage
  rejects it or the handler returns a response or an error; the stage adds this one span
  to whatever the handler starts and finishes itself, and the three methods of the
  registered server start none. A call whose request fails to decode returns before the
  chain and starts no span. The front door starts its own span exactly when the request
  takes the gateway branch and the extraction returned no error or
  \<open>ErrSpanContextNotFound\<close>, and what it started it finishes once, also when the gateway
  handler panics; on a native request and after any other extraction error it starts none.
\<close>

theorem C4_spans_started_and_finished:
  "spans_started (snd (server_interceptor tracer ctx req info handler)) =
     server_span tracer ctx (FullMethod info)
     # (case ValidateAll req of
          Some (Some err) \<Rightarrow> []
        | _ \<Rightarrow> spans_started
                 (snd (handler (ContextWithSpan ctx (server_span tracer ctx (FullMethod info))) req)))
   \<and> spans_finished (snd (server_interceptor tracer ctx req info handler)) =
       (case ValidateAll req of
          Some (Some err) \<Rightarrow> []
        | _ \<Rightarrow> spans_finished
                 (snd (handler (ContextWithSpan ctx (server_span tracer ctx (FullMethod info))) req)))
       @ [server_span tracer ctx (FullMethod info)]
   \<and> spans_started (snd (serve_SayHello tracer ctx dec1)) =
       (case dec1 of Inl e \<Rightarrow> [] | Inr q \<Rightarrow> [server_span tracer ctx Greeter_SayHello_FullMethodName])
   \<and> spans_finished (snd (serve_SayHello tracer ctx dec1)) =
       (case dec1 of Inl e \<Rightarrow> [] | Inr q \<Rightarrow> [server_span tracer ctx Greeter_SayHello_FullMethodName])
   \<and> spans_started (snd (serve_Logout tracer ctx dec2)) =
       (case dec2 of Inl e \<Rightarrow> [] | Inr q \<Rightarrow> [server_span tracer ctx Greeter_Logout_FullMethodName])
   \<and> spans_finished (snd (serve_Logout tracer ctx dec2)) =
       (case dec2 of Inl e \<Rightarrow> [] | Inr q \<Rightarrow> [server_span tracer ctx Greeter_Logout_FullMethodName])
   \<and> spans_started (snd (serve_GetUser tracer ctx dec3)) =
       (case dec3 of Inl e \<Rightarrow> [] | Inr q \<Rightarrow> [server_span tracer ctx Greeter_GetUser_FullMethodName])
   \<and> spans_finished (snd (serve_GetUser tracer ctx dec3)) =
       (case dec3 of Inl e \<Rightarrow> [] | Inr q \<Rightarrow> [server_span tracer ctx Greeter_GetUser_FullMethodName])
   \<and> front_spans_started (fst (grpcHandlerFunc tracer sprint grpcServer otherHandler w r)) =
       (if native_traffic r then []
        else if extraction_accepted (snd (Extract tracer (Header r)))
        then [StartSpan tracer ''ServeHTTP''
                [RPCServerOption (fst (Extract tracer (Header r))), grpcGatewayTag]]
        else [])
   \<and> front_spans_finished (fst (grpcHandlerFunc tracer sprint grpcServer otherHandler w r)) =
       front_spans_started (fst (grpcHandlerFunc tracer sprint grpcServer otherHandler w r))"
  by (intro conjI) (rule chain_spans serve_stages front_spans_exact)+

theorem C4_spans_started_and_finished_witness:
  "spans_started (snd (serve_SayHello demo_tracer context_Background (Inr ada_request))) =
     [demo_server_span]
   \<and> spans_finished (snd (serve_SayHello demo_tracer context_Background (Inr ada_request))) =
     [demo_server_span]
   \<and> spans_started (snd (serve_SayHello demo_tracer context_Background (Inr lovelace_request))) =
     [demo_server_span]
   \<and> spans_finished (snd (serve_SayHello demo_tracer context_Background (Inr lovelace_request))) =
     [demo_server_span]"
proof -
  note run = C4_spans_started_and_finished [where tracer = demo_tracer and ctx = context_Background]
  note started = run [THEN conjunct2, THEN conjunct2, THEN conjunct1]
  note finished = run [THEN conjunct2, THEN conjunct2, THEN conjunct2, THEN conjunct1]
  show ?thesis
    by (simp add: started finished demo_server_span)
qed

text \<open>
  The claim as stated fails: a call whose request does not decode leaves the generated
  handler before the interceptor is called and starts no span, and the front door starts
  no span for a gateway request whose parent context is unparsable.
\<close>

theorem C4_exit_without_span_counterexample:
  "serve_SayHello demo_tracer context_Background (Inl undecodable) = ((None, Some undecodable), [])
   \<and> spans_started (snd (serve_SayHello demo_tracer context_Background (Inl undecodable))) = []
   \<and> spans_finished (snd (serve_SayHello demo_tracer context_Background (Inl undecodable))) = []
   \<and> front_spans_started (fst (grpcHandlerFunc demo_tracer demo_sprint always_returns
                                  always_returns no_headers corrupted_trace_request)) = []"
  by (simp add: serve_decode_error spans_started_def spans_finished_def
        run_gateway_nospan [OF demo_gateway_requests(2) demo_gateway_requests(4)]
        extraction_accepted_def front_spans_started_def)

end
